theory Spec2Isabelle
  imports Complex_Main
begin

section \<open>Floating-point numbers\<close>

text \<open>
  A JavaScript number is an IEEE 754 binary64 value: a finite value, kept as the real it
  denotes, an infinity, or \<open>NaN\<close>. The two zeros are one value: the operations below (the
  test for a falsy number, subtraction, \<open>Math.abs\<close>, comparison, product and quotient
  with \<open>100\<close>, \<open>toFixed\<close>) give the same result on both. The type has a finite value
  for every real; the doubles among them are those that \<open>round_double\<close> leaves as they
  are, and every operation yields one of these.
\<close>

datatype double = Finite real | PosInf | NegInf | NaN

text \<open>
  The exponent of the binade of a positive real: the \<open>e\<close> with \<open>2^e \<le> x < 2^(e+1)\<close>,
  kept inside the range \<open>-1022\<close> to \<open>1024\<close>. Below \<open>2^-1022\<close> the values are subnormal
  and share the exponent \<open>-1022\<close>.
\<close>

definition two_pow :: "int \<Rightarrow> real" where
  "two_pow k = (if k \<ge> 0 then 2 ^ nat k else 1 / 2 ^ nat (- k))"

fun exp_up :: "nat \<Rightarrow> int \<Rightarrow> real \<Rightarrow> int" where
  "exp_up fuel e x =
     (if fuel = 0 \<or> x < two_pow (e + 1) then e else exp_up (fuel - 1) (e + 1) x)"

fun exp_down :: "nat \<Rightarrow> int \<Rightarrow> real \<Rightarrow> int" where
  "exp_down fuel e x =
     (if fuel = 0 \<or> two_pow e \<le> x then e else exp_down (fuel - 1) (e - 1) x)"

declare exp_up.simps [simp del] exp_down.simps [simp del]

definition binade :: "real \<Rightarrow> int" where
  "binade x = (if 1 \<le> x then exp_up 1024 0 x else exp_down 1021 (- 1) x)"

text \<open>The nearest integer, the even one of two that are equally near.\<close>

definition round_half_even :: "real \<Rightarrow> int" where
  "round_half_even m =
     (let f = \<lfloor>m\<rfloor>; r = m - of_int f
      in if r < 1 / 2 then f else if r > 1 / 2 then f + 1 else if even f then f else f + 1)"

text \<open>
  Rounding of an exact result to the nearest double, ties to even: a multiple of the
  binade's unit \<open>2^(e-52)\<close>; a result of magnitude \<open>2^1024\<close> or more is an infinity. A
  numeric literal of the source denotes the rounding of its decimal value.
\<close>

definition round_double :: "real \<Rightarrow> double" where
  "round_double x =
     (if x = 0 then Finite 0
      else
        (let a = \<bar>x\<bar>;
             q = binade a - 52;
             n = round_half_even (a / two_pow q);
             v = of_int n * two_pow q
         in if v \<ge> two_pow 1024 then (if x < 0 then NegInf else PosInf)
            else Finite (if x < 0 then - v else v)))"

text \<open>Subtraction; \<open>Infinity - Infinity\<close> is \<open>NaN\<close>.\<close>

fun d_sub :: "double \<Rightarrow> double \<Rightarrow> double" where
  "d_sub (Finite x) (Finite y) = round_double (x - y)"
| "d_sub (Finite x) PosInf = NegInf"
| "d_sub (Finite x) NegInf = PosInf"
| "d_sub PosInf (Finite y) = PosInf"
| "d_sub PosInf NegInf = PosInf"
| "d_sub PosInf PosInf = NaN"
| "d_sub NegInf (Finite y) = NegInf"
| "d_sub NegInf PosInf = NegInf"
| "d_sub NegInf NegInf = NaN"
| "d_sub NaN b = NaN"
| "d_sub a NaN = NaN"

text \<open>\<open>Math.abs\<close>.\<close>

fun d_abs :: "double \<Rightarrow> double" where
  "d_abs (Finite x) = Finite \<bar>x\<bar>"
| "d_abs PosInf = PosInf"
| "d_abs NegInf = PosInf"
| "d_abs NaN = NaN"

text \<open>\<open>a < b\<close> and \<open>a >= b\<close>; every comparison with \<open>NaN\<close> is false.\<close>

fun d_less :: "double \<Rightarrow> double \<Rightarrow> bool" where
  "d_less (Finite x) (Finite y) = (x < y)"
| "d_less (Finite x) PosInf = True"
| "d_less (Finite x) NegInf = False"
| "d_less PosInf b = False"
| "d_less NegInf (Finite y) = True"
| "d_less NegInf PosInf = True"
| "d_less NegInf NegInf = False"
| "d_less NegInf NaN = False"
| "d_less (Finite x) NaN = False"
| "d_less NaN b = False"

definition d_ge :: "double \<Rightarrow> double \<Rightarrow> bool" where
  "d_ge a b = (a \<noteq> NaN \<and> b \<noteq> NaN \<and> \<not> d_less a b)"

text \<open>\<open>x * 100\<close> and \<open>x / 100\<close>.\<close>

fun times100 :: "double \<Rightarrow> double" where
  "times100 (Finite x) = round_double (x * 100)"
| "times100 PosInf = PosInf"
| "times100 NegInf = NegInf"
| "times100 NaN = NaN"

fun div100 :: "double \<Rightarrow> double" where
  "div100 (Finite x) = round_double (x / 100)"
| "div100 PosInf = PosInf"
| "div100 NegInf = NegInf"
| "div100 NaN = NaN"

text \<open>\<open>x || 0\<close> on a number: zero and \<open>NaN\<close> are the falsy numbers.\<close>

definition orZero :: "double \<Rightarrow> double" where
  "orZero x = (if x = Finite 0 \<or> x = NaN then Finite 0 else x)"

section \<open>Data model\<close>

text \<open>
  The report page (\<open>ReportDetailsPage\<close>) and the e-mail template page
  (\<open>EmailTemplatesPage\<close>) share two interfaces. Optional fields (\<open>field?: T\<close>) are
  options. Similarity scores are JavaScript numbers, that is doubles. Strings are lists of
  8-bit characters; code units above \<open>0xFF\<close> are outside the model.
\<close>

datatype trademark_type = image_based | text_only

record SimilarTrademark =
  mark :: string
  similarity_score :: double
  vector_similarity_score :: "double option"
  text_similarity_score :: "double option"
  trademark_class :: "string option"
  applicant_name :: "string option"
  application_no :: "string option"
  image_path :: "string option"
  trademark_type :: "trademark_type option"

text \<open>
  The fields of \<open>JournalTrademarkEntry\<close> whose names it shares with
  \<open>SimilarTrademark\<close> carry the prefix \<open>entry_\<close>.
\<close>

record JournalTrademarkEntry =
  entry_trademark_type :: trademark_type
  mark_name :: "string option"
  entry_mark :: "string option"
  entry_trademark_class :: "string option"
  entry_applicant_name :: "string option"
  entry_application_no :: "string option"
  pdf_source :: "string option"
  page_number :: "nat option"
  entry_image_path :: "string option"
  similar_trademarks :: "SimilarTrademark list option"
  similar_trademark :: "SimilarTrademark list option"
  similarities :: "SimilarTrademark list option"
  matches :: "SimilarTrademark list option"

record SelectedTrademark =
  entry :: JournalTrademarkEntry
  sim :: SimilarTrademark
  entryIndex :: nat
  simIndex :: nat

section \<open>Strings and numbers of the platform\<close>

text \<open>Decimal rendering of a non-negative integer, as a template literal interpolates it.\<close>

definition digit_char :: "nat \<Rightarrow> char" where
  "digit_char n = ''0123456789'' ! (n mod 10)"

fun show_nat :: "nat \<Rightarrow> string" where
  "show_nat n = (if n < 10 then [digit_char n] else show_nat (n div 10) @ [digit_char n])"

declare show_nat.simps [simp del]

text \<open>
  A JavaScript \<open>Set<string>\<close> keeps its elements in insertion order: a list without
  repetitions. \<open>add\<close> of a present element changes nothing, \<open>delete\<close> removes it.
\<close>

type_synonym string_set = "string list"

definition set_has :: "string_set \<Rightarrow> string \<Rightarrow> bool" where
  "set_has S k = (k \<in> set S)"

definition set_add :: "string_set \<Rightarrow> string \<Rightarrow> string_set" where
  "set_add S k = (if k \<in> set S then S else S @ [k])"

definition set_delete :: "string_set \<Rightarrow> string \<Rightarrow> string_set" where
  "set_delete S k = filter (\<lambda>x. x \<noteq> k) S"

section \<open>Selection tracker\<close>

text \<open>The composite key \<open>`${entryIndex}-${simIndex}`\<close>.\<close>

definition trademarkId :: "nat \<Rightarrow> nat \<Rightarrow> string" where
  "trademarkId entryIdx simIdx = show_nat entryIdx @ ''-'' @ show_nat simIdx"

text \<open>
  \<open>handleTrademarkSelect\<close> (ReportGenerationTab.tsx, lines 558-569): the state update
  copies the previous set and adds the key when \<open>checked\<close>, deletes it otherwise.
\<close>

definition handleTrademarkSelect :: "nat \<Rightarrow> nat \<Rightarrow> bool \<Rightarrow> string_set \<Rightarrow> string_set" where
  "handleTrademarkSelect entryIdx simIdx checked prev =
     (let trademarkId = trademarkId entryIdx simIdx
      in if checked then set_add prev trademarkId else set_delete prev trademarkId)"

text \<open>A sequence of calls, applied from the left to a starting set.\<close>

fun run_selects :: "(nat \<times> nat \<times> bool) list \<Rightarrow> string_set \<Rightarrow> string_set" where
  "run_selects [] S = S"
| "run_selects ((e, s, c) # ops) S = run_selects ops (handleTrademarkSelect e s c S)"

text \<open>How many calls of a sequence address the key \<open>k\<close>.\<close>

definition toggle_count :: "string \<Rightarrow> (nat \<times> nat \<times> bool) list \<Rightarrow> nat" where
  "toggle_count k ops = length (filter (\<lambda>(e, s, c). trademarkId e s = k) ops)"

text \<open>
  A row checkbox is rendered with \<open>checked={isSelected}\<close> and calls
  \<open>handleTrademarkSelect\<close> with \<open>e.target.checked\<close>, the negation of the key's
  membership at that moment. \<open>flipping ops S\<close> says that every call of \<open>ops\<close>, run
  from \<open>S\<close>, is of that kind.
\<close>

fun flipping :: "(nat \<times> nat \<times> bool) list \<Rightarrow> string_set \<Rightarrow> bool" where
  "flipping [] S = True"
| "flipping ((e, s, c) # ops) S =
     (c = (\<not> set_has S (trademarkId e s)) \<and> flipping ops (handleTrademarkSelect e s c S))"

section \<open>Match sequence of an entry\<close>

text \<open>
  The chain \<open>entry?.similar_trademarks || entry?.similar_trademark || entry?.similarities ||
  entry?.matches || []\<close> (ReportGenerationTab.tsx, lines 586-591, 1341-1346, 1644-1649).
  \<open>a || b\<close> is \<open>a\<close> when \<open>a\<close> is truthy; every array is truthy, the empty one too,
  and an absent field is not.
\<close>

definition similarTrademarksOf :: "JournalTrademarkEntry \<Rightarrow> SimilarTrademark list" where
  "similarTrademarksOf e =
     (case similar_trademarks e of Some xs \<Rightarrow> xs | None \<Rightarrow>
      (case similar_trademark e of Some xs \<Rightarrow> xs | None \<Rightarrow>
       (case similarities e of Some xs \<Rightarrow> xs | None \<Rightarrow>
        (case matches e of Some xs \<Rightarrow> xs | None \<Rightarrow> []))))"

text \<open>The four alternative fields, in the order the chain reads them.\<close>

definition alternative_fields :: "JournalTrademarkEntry \<Rightarrow> SimilarTrademark list option list" where
  "alternative_fields e = [similar_trademarks e, similar_trademark e, similarities e, matches e]"

text \<open>
  The reading of the specification: the first alternative that holds a non-empty sequence,
  the empty sequence when there is none.
\<close>

definition spec_first_nonempty :: "'a list option list \<Rightarrow> 'a list" where
  "spec_first_nonempty fs =
     (case List.find (\<lambda>f. f \<noteq> None \<and> f \<noteq> Some []) fs of Some (Some xs) \<Rightarrow> xs | _ \<Rightarrow> [])"

text \<open>The first alternative that is present at all, the empty sequence when none is.\<close>

definition first_present :: "'a list option list \<Rightarrow> 'a list" where
  "first_present fs = (case List.find (\<lambda>f. f \<noteq> None) fs of Some (Some xs) \<Rightarrow> xs | _ \<Rightarrow> [])"

section \<open>Index reconciler\<close>

text \<open>
  \<open>Array.prototype.findIndex\<close>: the position of the first element that satisfies the
  predicate; \<open>None\<close> stands for the result \<open>-1\<close>.
\<close>

fun findIndex :: "('a \<Rightarrow> bool) \<Rightarrow> 'a list \<Rightarrow> nat option" where
  "findIndex P [] = None"
| "findIndex P (x # xs) = (if P x then Some 0 else map_option Suc (findIndex P xs))"

text \<open>
  The predicate of the applicant-filtered view (lines 1349-1355): mark, score within
  \<open>0.0001\<close>, applicant name and class. The score test is
  \<open>Math.abs((s.similarity_score || 0) - (sim.similarity_score || 0)) < 0.0001\<close> in the
  arithmetic of doubles: the difference is rounded, and \<open>0.0001\<close> is the double nearest
  to that decimal.
\<close>

definition sameSimApplicantView :: "SimilarTrademark \<Rightarrow> SimilarTrademark \<Rightarrow> bool"
  where
  "sameSimApplicantView sm s =
     (mark s = mark sm \<and>
      d_less (d_abs (d_sub (orZero (similarity_score s)) (orZero (similarity_score sm))))
        (round_double (1 / 10000)) \<and>
      applicant_name s = applicant_name sm \<and>
      trademark_class s = trademark_class sm)"

text \<open>
  The predicate of the similar-trademarks table (lines 1651-1655, and the header checkbox,
  lines 1606-1610 and 1621-1625): mark, score within \<open>0.0001\<close> and applicant name.
\<close>

definition sameSimTableView :: "SimilarTrademark \<Rightarrow> SimilarTrademark \<Rightarrow> bool"
  where
  "sameSimTableView sm s =
     (mark s = mark sm \<and>
      d_less (d_abs (d_sub (orZero (similarity_score s)) (orZero (similarity_score sm))))
        (round_double (1 / 10000)) \<and>
      applicant_name s = applicant_name sm)"

definition actualSimIndexApplicantView ::
  "SimilarTrademark list \<Rightarrow> SimilarTrademark \<Rightarrow> nat option" where
  "actualSimIndexApplicantView similarTrademarksForEntry sm =
     findIndex (sameSimApplicantView sm) similarTrademarksForEntry"

definition actualSimIndexTableView ::
  "SimilarTrademark list \<Rightarrow> SimilarTrademark \<Rightarrow> nat option" where
  "actualSimIndexTableView entrySimilarTrademarks sm =
     findIndex (sameSimTableView sm) entrySimilarTrademarks"

text \<open>
  The agreement of two matches that the reconciler is specified to test: the same mark
  name, applicant name and class, and scores within \<open>1e-4\<close> of each other. The scores
  are doubles and so is their distance; \<open>NaN\<close> counts as \<open>0\<close>, and an infinite score
  is within \<open>1e-4\<close> of no score.
\<close>

definition spec_scores_agree :: "double \<Rightarrow> double \<Rightarrow> bool" where
  "spec_scores_agree a b =
     (case (orZero a, orZero b) of
        (Finite x, Finite y) \<Rightarrow>
          d_less (d_abs (round_double (x - y))) (round_double (1 / 10000))
      | _ \<Rightarrow> False)"

definition spec_same_match :: "SimilarTrademark \<Rightarrow> SimilarTrademark \<Rightarrow> bool" where
  "spec_same_match a b =
     (mark a = mark b \<and> applicant_name a = applicant_name b \<and>
      trademark_class a = trademark_class b \<and>
      spec_scores_agree (similarity_score a) (similarity_score b))"

section \<open>Scores: threshold filter and display\<close>

text \<open>
  \<open>score > 1 ? score / 100 : score\<close>, as the filters and the applicant-filtered view
  write it.
\<close>

definition normalizedScore :: "double \<Rightarrow> double" where
  "normalizedScore score = (if d_less (Finite 1) score then div100 score else score)"

text \<open>
  \<open>getFilteredSimilarTrademarks\<close> (lines 697-709); the page calls it with the default
  threshold \<open>0.3\<close>. The score is a number by its declared type, so the test for an
  absent score never fires.
\<close>

definition getFilteredSimilarTrademarks :: "SimilarTrademark list \<Rightarrow> double \<Rightarrow> SimilarTrademark list" where
  "getFilteredSimilarTrademarks similarTrademarks minThreshold =
     filter (\<lambda>sm. d_ge (normalizedScore (similarity_score sm)) minThreshold) similarTrademarks"

text \<open>
  \<open>Number.prototype.toFixed(1)\<close>. A value that is not finite is written by its name. A
  finite value gets its sign; below \<open>10^21\<close> there follows the integer \<open>n\<close> for which
  \<open>n / 10\<close> is nearest to the magnitude (the larger one on a tie), written with one digit
  after the point. From \<open>10^21\<close> on there follows the platform's \<open>Number::toString\<close> of
  the magnitude, an exponent notation whose last digit the standard leaves to the
  implementation: that function is a parameter.
\<close>

type_synonym number_toString = "real \<Rightarrow> string"

definition toFixed1 :: "number_toString \<Rightarrow> double \<Rightarrow> string" where
  "toFixed1 toStr v =
     (case v of
        NaN \<Rightarrow> ''NaN''
      | PosInf \<Rightarrow> ''Infinity''
      | NegInf \<Rightarrow> ''-Infinity''
      | Finite x \<Rightarrow>
          (if x < 0 then ''-'' else []) @
          (if \<bar>x\<bar> \<ge> 10 ^ 21 then toStr \<bar>x\<bar>
           else (let n = nat \<lfloor>\<bar>x\<bar> * 10 + 1 / 2\<rfloor>
                 in show_nat (n div 10) @ ''.'' @ [digit_char n])))"

text \<open>\<open>formatPercentage\<close> (lines 539-541).\<close>

definition formatPercentage :: "number_toString \<Rightarrow> double \<Rightarrow> string" where
  "formatPercentage toStr v = toFixed1 toStr (times100 v) @ ''%''"

text \<open>
  The score cell of the similar-trademarks table (line 1686) formats the score as it
  arrived; the applicant-filtered view (lines 1332 and 1398) normalises it first.
\<close>

definition scoreCellTableView :: "number_toString \<Rightarrow> SimilarTrademark \<Rightarrow> string" where
  "scoreCellTableView toStr sm = formatPercentage toStr (similarity_score sm)"

definition scoreCellApplicantView :: "number_toString \<Rightarrow> SimilarTrademark \<Rightarrow> string" where
  "scoreCellApplicantView toStr sm =
     (let score = normalizedScore (similarity_score sm) in formatPercentage toStr score)"

text \<open>\<open>getScoreColor\<close> (lines 792-797) picks the badge classes by fixed thresholds.\<close>

definition getScoreColor :: "double \<Rightarrow> string" where
  "getScoreColor score =
     (if d_ge score (round_double (8 / 10)) then ''bg-red-100 text-red-800 border-red-300''
      else if d_ge score (round_double (7 / 10))
        then ''bg-orange-100 text-orange-800 border-orange-300''
      else if d_ge score (round_double (5 / 10))
        then ''bg-yellow-100 text-yellow-800 border-yellow-300''
      else ''bg-gray-100 text-gray-800 border-gray-300'')"

text \<open>The badge of the table (line 1685) and of the applicant-filtered view (line 1397).\<close>

definition scoreColorTableView :: "SimilarTrademark \<Rightarrow> string" where
  "scoreColorTableView sm = getScoreColor (similarity_score sm)"

definition scoreColorApplicantView :: "SimilarTrademark \<Rightarrow> string" where
  "scoreColorApplicantView sm =
     (let score = normalizedScore (similarity_score sm) in getScoreColor score)"

section \<open>Sample data\<close>

text \<open>
  The match and the entry of the specification's scenario; fields the scenario leaves open
  are absent.
\<close>

definition TYGER :: SimilarTrademark where
  "TYGER = \<lparr>mark = ''TYGER'', similarity_score = round_double (85 / 100), vector_similarity_score = None,
     text_similarity_score = None, trademark_class = Some ''Class 25'',
     applicant_name = Some ''Acme Corp'', application_no = None, image_path = None,
     trademark_type = None\<rparr>"

definition TIGER :: JournalTrademarkEntry where
  "TIGER = \<lparr>entry_trademark_type = text_only, mark_name = Some ''TIGER'', entry_mark = None,
     entry_trademark_class = Some ''25'', entry_applicant_name = None,
     entry_application_no = None, pdf_source = Some ''Journal_2237_Class25.pdf'',
     page_number = None, entry_image_path = None, similar_trademarks = Some [TYGER],
     similar_trademark = None, similarities = None, matches = None\<rparr>"

section \<open>Report data and the selected pairs\<close>

text \<open>
  \<open>ReportData\<close> with the three alternative names of the entry list; the summary
  statistics play no part below and are left out.
\<close>

record ReportData =
  report_id :: string
  monday_date :: string
  report_date :: string
  entries_with_similarities :: "JournalTrademarkEntry list option"
  entries :: "JournalTrademarkEntry list option"
  journal_entries :: "JournalTrademarkEntry list option"

text \<open>
  The entry list of the page (lines 845-849). The report is an object, so the last
  alternative, \<open>Array.isArray(reportData) ? reportData : []\<close>, is the empty list.
\<close>

definition entriesOf :: "ReportData \<Rightarrow> JournalTrademarkEntry list" where
  "entriesOf reportData =
     (case entries_with_similarities reportData of Some es \<Rightarrow> es | None \<Rightarrow>
      (case entries reportData of Some es \<Rightarrow> es | None \<Rightarrow>
       (case journal_entries reportData of Some es \<Rightarrow> es | None \<Rightarrow> [])))"

text \<open>
  \<open>getSelectedTrademarksData\<close> (lines 572-645). The inner \<open>forEach\<close> walks the match
  sequence of one entry with its running index, the outer one the entries with theirs;
  each selected pair is pushed as it is met. The debug output does not touch the result.
\<close>

fun collectSims ::
  "string_set \<Rightarrow> JournalTrademarkEntry \<Rightarrow> nat \<Rightarrow> nat \<Rightarrow> SimilarTrademark list \<Rightarrow>
   SelectedTrademark list" where
  "collectSims selectedTrademarks e entryIdx simIdx [] = []"
| "collectSims selectedTrademarks e entryIdx simIdx (sm # sms) =
     (if set_has selectedTrademarks (trademarkId entryIdx simIdx)
      then [\<lparr>entry = e, sim = sm, entryIndex = entryIdx, simIndex = simIdx\<rparr>]
      else []) @
     collectSims selectedTrademarks e entryIdx (Suc simIdx) sms"

fun collectEntries ::
  "string_set \<Rightarrow> nat \<Rightarrow> JournalTrademarkEntry list \<Rightarrow> SelectedTrademark list" where
  "collectEntries selectedTrademarks entryIdx [] = []"
| "collectEntries selectedTrademarks entryIdx (e # es) =
     collectSims selectedTrademarks e entryIdx 0 (similarTrademarksOf e) @
     collectEntries selectedTrademarks (Suc entryIdx) es"

definition getSelectedTrademarksData ::
  "ReportData option \<Rightarrow> string_set \<Rightarrow> SelectedTrademark list" where
  "getSelectedTrademarksData reportData selectedTrademarks =
     (case reportData of
        None \<Rightarrow> []
      | Some rd \<Rightarrow> collectEntries selectedTrademarks 0 (entriesOf rd))"

text \<open>Position order of selected pairs: by entry index, then by match index.\<close>

definition position_less :: "SelectedTrademark \<Rightarrow> SelectedTrademark \<Rightarrow> bool" where
  "position_less a b =
     (entryIndex a < entryIndex b \<or> (entryIndex a = entryIndex b \<and> simIndex a < simIndex b))"

section \<open>Rendering the rows of a view\<close>

text \<open>
  The console is the list of the calls of \<open>console.warn\<close> made so far, each with its
  arguments as text. A rendered row keeps the key of its checkbox, its checked state and
  the texts it shows; \<open>None\<close> is the \<open>null\<close> that React leaves out.
\<close>

type_synonym console = "string list list"

record Row =
  row_trademarkId :: string
  row_isSelected :: bool
  row_cells :: "string list"

definition orText :: "string \<Rightarrow> string \<Rightarrow> string" where
  "orText s d = (if s = [] then d else s)"

definition optOrText :: "string option \<Rightarrow> string \<Rightarrow> string" where
  "optOrText s d = (case s of None \<Rightarrow> d | Some v \<Rightarrow> orText v d)"

text \<open>One row of the similar-trademarks table (lines 1642-1694).\<close>

definition renderTableRow ::
  "number_toString \<Rightarrow> nat \<Rightarrow> JournalTrademarkEntry \<Rightarrow> string_set \<Rightarrow>
   SimilarTrademark \<Rightarrow> console \<Rightarrow> Row option \<times> console" where
  "renderTableRow toStr actualEntryIndex e selectedTrademarks sm console =
     (let entrySimilarTrademarks = similarTrademarksOf e
      in case actualSimIndexTableView entrySimilarTrademarks sm of
           None \<Rightarrow>
             (None, console @ [[''Could not find sim index for:'', mark sm, ''in entry:'',
                show_nat actualEntryIndex]])
         | Some actualSimIndex \<Rightarrow>
             (let trademarkId = trademarkId actualEntryIndex actualSimIndex;
                  isSelected = set_has selectedTrademarks trademarkId
              in (Some \<lparr>row_trademarkId = trademarkId, row_isSelected = isSelected,
                    row_cells = [orText (mark sm) ''N/A'', scoreCellTableView toStr sm,
                      optOrText (trademark_class sm) ''N/A'',
                      optOrText (applicant_name sm) ''N/A'',
                      optOrText (application_no sm) ''N/A'']\<rparr>,
                  console)))"

text \<open>\<open>filtered.map(...)\<close>: the rows in order, the console threaded through.\<close>

fun renderTableRows ::
  "number_toString \<Rightarrow> nat \<Rightarrow> JournalTrademarkEntry \<Rightarrow> string_set \<Rightarrow>
   SimilarTrademark list \<Rightarrow> console \<Rightarrow> Row option list \<times> console" where
  "renderTableRows toStr actualEntryIndex e selectedTrademarks [] console = ([], console)"
| "renderTableRows toStr actualEntryIndex e selectedTrademarks (sm # sms) console =
     (let (row, console1) = renderTableRow toStr actualEntryIndex e selectedTrademarks sm console;
          (rows, console2) =
            renderTableRows toStr actualEntryIndex e selectedTrademarks sms console1
      in (row # rows, console2))"

text \<open>
  One match of the applicant-filtered view (lines 1330-1404). An entry index outside the
  entry list gives \<open>undefined\<close> and the match is left out without a warning.
\<close>

definition renderApplicantMatch ::
  "number_toString \<Rightarrow> JournalTrademarkEntry list \<Rightarrow> nat \<Rightarrow> string_set \<Rightarrow>
   SimilarTrademark \<Rightarrow> console \<Rightarrow> Row option \<times> console" where
  "renderApplicantMatch toStr es entryIdx selectedTrademarks sm console =
     (if \<not> entryIdx < length es then (None, console)
      else
        (let entryForMatch = es ! entryIdx;
             similarTrademarksForEntry = similarTrademarksOf entryForMatch
         in case actualSimIndexApplicantView similarTrademarksForEntry sm of
              None \<Rightarrow>
                (None, console @ [[''Could not find sim index for:'', mark sm, ''Applicant:'',
                   (case applicant_name sm of None \<Rightarrow> ''undefined'' | Some a \<Rightarrow> a),
                   ''in entry:'', show_nat entryIdx]])
            | Some actualSimIndex \<Rightarrow>
                (let actualTrademarkId = trademarkId entryIdx actualSimIndex;
                     isSelected = set_has selectedTrademarks actualTrademarkId
                 in (Some \<lparr>row_trademarkId = actualTrademarkId, row_isSelected = isSelected,
                       row_cells = [orText (mark sm) ''Unknown'',
                         optOrText (trademark_class sm) ''N/A'',
                         optOrText (application_no sm) ''N/A'',
                         scoreCellApplicantView toStr sm]\<rparr>,
                     console))))"

fun renderApplicantMatches ::
  "number_toString \<Rightarrow> JournalTrademarkEntry list \<Rightarrow> nat \<Rightarrow> string_set \<Rightarrow>
   SimilarTrademark list \<Rightarrow> console \<Rightarrow> Row option list \<times> console" where
  "renderApplicantMatches toStr es entryIdx selectedTrademarks [] console = ([], console)"
| "renderApplicantMatches toStr es entryIdx selectedTrademarks (sm # sms) console =
     (let (row, console1) = renderApplicantMatch toStr es entryIdx selectedTrademarks sm console;
          (rows, console2) =
            renderApplicantMatches toStr es entryIdx selectedTrademarks sms console1
      in (row # rows, console2))"

text \<open>Whether a view fails to reconcile a match, and the warning it then writes.\<close>

definition tableMiss :: "JournalTrademarkEntry \<Rightarrow> SimilarTrademark \<Rightarrow> bool" where
  "tableMiss e sm = (actualSimIndexTableView (similarTrademarksOf e) sm = None)"

definition applicantMiss :: "JournalTrademarkEntry list \<Rightarrow> nat \<Rightarrow> SimilarTrademark \<Rightarrow> bool" where
  "applicantMiss es entryIdx sm =
     (entryIdx < length es \<and>
      actualSimIndexApplicantView (similarTrademarksOf (es ! entryIdx)) sm = None)"

text \<open>A report with two entries, each holding the scenario's match.\<close>

definition sample_report :: ReportData where
  "sample_report = \<lparr>report_id = ''r-1'', monday_date = ''2025-01-06'',
     report_date = ''2025-01-06'', entries_with_similarities = Some [TIGER, TIGER],
     entries = None, journal_entries = None\<rparr>"

section \<open>Applicant aggregator\<close>

text \<open>
  \<open>String.prototype.trim\<close> removes white space and line terminators from both ends; in
  the 8-bit range these are the characters \<open>0x09\<close> to \<open>0x0D\<close>, the space and the
  no-break space.
\<close>

definition isWhiteSpace :: "char \<Rightarrow> bool" where
  "isWhiteSpace c = (c \<in> set [CHR 0x09, CHR 0x0A, CHR 0x0B, CHR 0x0C, CHR 0x0D, CHR 0x20, CHR 0xA0])"

definition trim :: "string \<Rightarrow> string" where
  "trim s = rev (dropWhile isWhiteSpace (rev (dropWhile isWhiteSpace s)))"

text \<open>
  The grouping key (email-templates/page.tsx, lines 135-138):
  \<open>sim.applicant_name?.trim() || ''\<close>, then \<open>'Unknown'\<close> for the empty string.
\<close>

definition applicantNameOf :: "SimilarTrademark \<Rightarrow> string" where
  "applicantNameOf sm =
     (let applicantName = (case applicant_name sm of None \<Rightarrow> [] | Some n \<Rightarrow> trim n)
      in if applicantName = [] then ''Unknown'' else applicantName)"

text \<open>
  A JavaScript \<open>Map\<close> keeps its keys in insertion order: an association list. \<open>get\<close>
  is \<open>map_of\<close>; \<open>set\<close> replaces the value of a present key in place and appends a new
  key at the end.
\<close>

fun map_set :: "('k \<times> 'v) list \<Rightarrow> 'k \<Rightarrow> 'v \<Rightarrow> ('k \<times> 'v) list" where
  "map_set [] k v = [(k, v)]"
| "map_set ((k', v') # m) k v = (if k' = k then (k, v) # m else (k', v') # map_set m k v)"

type_synonym entry_group = "JournalTrademarkEntry \<times> SimilarTrademark list"

type_synonym applicant_entries = "(nat \<times> entry_group) list"

record ApplicantGroup =
  applicantName :: string
  email :: "string option"
  loading :: bool
  group_entries :: applicant_entries

text \<open>
  One turn of \<open>selectedTrademarks.forEach\<close> (lines 133-157). The inner map and the match
  list are objects mutated in place; here each changed object is written back into its
  owner. The two lookups marked \<open>!\<close> in the source follow a \<open>set\<close> of the same key, so
  their \<open>None\<close> branches are never taken.
\<close>

definition groupStep ::
  "(string \<times> applicant_entries) list \<Rightarrow> SelectedTrademark \<Rightarrow> (string \<times> applicant_entries) list" where
  "groupStep grouped t =
     (let applicantName = applicantNameOf (sim t);
          grouped1 = (if map_of grouped applicantName = None
                      then map_set grouped applicantName [] else grouped);
          applicantEntries = (case map_of grouped1 applicantName of Some m \<Rightarrow> m | None \<Rightarrow> []);
          applicantEntries1 = (if map_of applicantEntries (entryIndex t) = None
                               then map_set applicantEntries (entryIndex t) (entry t, [])
                               else applicantEntries);
          applicantEntries2 = (case map_of applicantEntries1 (entryIndex t) of
                                 Some (e, similarTrademarks) \<Rightarrow>
                                   map_set applicantEntries1 (entryIndex t)
                                     (e, similarTrademarks @ [sim t])
                               | None \<Rightarrow> applicantEntries1)
      in map_set grouped1 applicantName applicantEntries2)"

definition grouped_of :: "SelectedTrademark list \<Rightarrow> (string \<times> applicant_entries) list" where
  "grouped_of selectedTrademarks = foldl groupStep [] selectedTrademarks"

text \<open>\<open>Array.from(grouped.entries()).map(...)\<close> (lines 167-172).\<close>

definition applicantGroupsOf :: "SelectedTrademark list \<Rightarrow> ApplicantGroup list" where
  "applicantGroupsOf selectedTrademarks =
     map (\<lambda>(name, es). \<lparr>applicantName = name, email = None, loading = True, group_entries = es\<rparr>)
       (grouped_of selectedTrademarks)"

text \<open>The check sum of lines 175-177, two nested \<open>reduce\<close> calls.\<close>

definition totalTrademarksInGroups :: "ApplicantGroup list \<Rightarrow> nat" where
  "totalTrademarksInGroups groups =
     foldl (\<lambda>sum group.
        sum + foldl (\<lambda>entrySum en. entrySum + length (snd (snd en))) 0 (group_entries group))
       0 groups"

text \<open>
  The effect as a whole (lines 116-185): nothing happens while the selection is empty or
  the report is missing; otherwise the groups replace the page state. The second
  component tells whether the mismatch warning of line 181 is written.
\<close>

definition groupingEffect ::
  "SelectedTrademark list \<Rightarrow> ReportData option \<Rightarrow> (ApplicantGroup list \<times> bool) option" where
  "groupingEffect selectedTrademarks reportData =
     (if selectedTrademarks = [] \<or> reportData = None then None
      else
        (let groups = applicantGroupsOf selectedTrademarks
         in Some (groups, totalTrademarksInGroups groups \<noteq> length selectedTrademarks)))"

text \<open>Whether a group lists the match of a selected pair under the pair's entry index.\<close>

definition group_has :: "ApplicantGroup \<Rightarrow> SelectedTrademark \<Rightarrow> bool" where
  "group_has g t =
     (case map_of (group_entries g) (entryIndex t) of
        None \<Rightarrow> False
      | Some (e, similarTrademarks) \<Rightarrow> sim t \<in> set similarTrademarks)"

text \<open>The matches stored for applicant \<open>n\<close> under entry index \<open>i\<close>.\<close>

definition sims_at :: "(string \<times> applicant_entries) list \<Rightarrow> string \<Rightarrow> nat \<Rightarrow> SimilarTrademark list" where
  "sims_at grouped n i =
     (case map_of grouped n of
        None \<Rightarrow> []
      | Some es \<Rightarrow> (case map_of es i of None \<Rightarrow> [] | Some (e, similarTrademarks) \<Rightarrow> similarTrademarks))"

definition count_grouped :: "(string \<times> applicant_entries) list \<Rightarrow> nat" where
  "count_grouped grouped =
     sum_list (map (\<lambda>(n, es). sum_list (map (\<lambda>en. length (snd (snd en))) es)) grouped)"

text \<open>
  The key of a selected pair, and the keys of the active set that name a position of the
  report: an entry index inside the entry list and a match index inside that entry's match
  sequence. The report page creates keys from rendered positions only.
\<close>

definition keyOf :: "SelectedTrademark \<Rightarrow> string" where
  "keyOf t = trademarkId (entryIndex t) (simIndex t)"

definition valid_keys :: "ReportData \<Rightarrow> string_set \<Rightarrow> bool" where
  "valid_keys rd S =
     (\<forall>k\<in>set S. \<exists>ei<length (entriesOf rd).
        \<exists>si<length (similarTrademarksOf (entriesOf rd ! ei)). k = trademarkId ei si)"

section \<open>The lists that the views render\<close>

text \<open>
  The similar-trademarks table of the entry at index \<open>actualEntryIndex\<close> renders
  \<open>getFilteredSimilarTrademarks(similarTrademarks)\<close> of that entry, with the default
  threshold \<open>0.3\<close> (lines 876-893 and 1440-1446). The entries of a report are distinct
  objects, so the search for the entry by identity gives its own index. There is no card
  for an index outside the entry list.
\<close>

definition tableViewOfEntry ::
  "number_toString \<Rightarrow> JournalTrademarkEntry list \<Rightarrow> nat \<Rightarrow> string_set \<Rightarrow> console \<Rightarrow>
   Row option list \<times> console" where
  "tableViewOfEntry toStr es actualEntryIndex selectedTrademarks console =
     (if \<not> actualEntryIndex < length es then ([], console)
      else
        (let e = es ! actualEntryIndex;
             filtered = getFilteredSimilarTrademarks (similarTrademarksOf e) (round_double (3 / 10))
         in renderTableRows toStr actualEntryIndex e selectedTrademarks filtered console))"

text \<open>
  \<open>getFilteredMatchesByApplicant\<close> (lines 761-790). A pair \<open>{entry, sim}\<close> is kept as
  the index of the entry and the match, which is what the view looks up again by the
  identity of the entry (lines 1175-1186).
\<close>

definition keptForApplicant :: "string \<Rightarrow> SimilarTrademark \<Rightarrow> bool" where
  "keptForApplicant selectedApplicant sm =
     (case applicant_name sm of
        None \<Rightarrow> False
      | Some a \<Rightarrow>
          a \<noteq> [] \<and> trim a = trim selectedApplicant \<and>
          d_ge (normalizedScore (similarity_score sm)) (round_double (3 / 10)))"

text \<open>
  \<open>matches.sort((a, b) => scoreB - scoreA)\<close>: a stable sort by descending normalised
  score. Every score that reaches it has passed the threshold test, so it is finite or
  \<open>Infinity\<close>; the difference of two infinities is \<open>NaN\<close>, which the sort takes for
  \<open>0\<close>.
\<close>

fun insertByScore ::
  "nat \<times> SimilarTrademark \<Rightarrow> (nat \<times> SimilarTrademark) list \<Rightarrow> (nat \<times> SimilarTrademark) list"
  where
  "insertByScore m [] = [m]"
| "insertByScore m (m' # ms) =
     (if d_less (normalizedScore (similarity_score (snd m)))
           (normalizedScore (similarity_score (snd m')))
      then m' # insertByScore m ms else m # m' # ms)"

definition sortByScore :: "(nat \<times> SimilarTrademark) list \<Rightarrow> (nat \<times> SimilarTrademark) list"
  where
  "sortByScore ms = foldr insertByScore ms []"

definition getFilteredMatchesByApplicant ::
  "string \<Rightarrow> JournalTrademarkEntry list \<Rightarrow> (nat \<times> SimilarTrademark) list" where
  "getFilteredMatchesByApplicant selectedApplicant es =
     sortByScore
       (concat (map (\<lambda>(entryIdx, e).
          map (Pair entryIdx) (filter (keptForApplicant selectedApplicant) (similarTrademarksOf e)))
          (enumerate 0 es)))"

text \<open>
  The matches grouped under one entry index (\<open>groupedByEntry\<close>, lines 1173-1186), and
  the rows that the applicant-filtered view renders for them.
\<close>

definition matchesOfEntry ::
  "string \<Rightarrow> JournalTrademarkEntry list \<Rightarrow> nat \<Rightarrow> SimilarTrademark list" where
  "matchesOfEntry selectedApplicant es entryIdx =
     map snd (filter (\<lambda>m. fst m = entryIdx) (getFilteredMatchesByApplicant selectedApplicant es))"

definition applicantViewOfEntry ::
  "number_toString \<Rightarrow> string \<Rightarrow> JournalTrademarkEntry list \<Rightarrow> nat \<Rightarrow> string_set \<Rightarrow>
   console \<Rightarrow> Row option list \<times> console" where
  "applicantViewOfEntry toStr selectedApplicant es entryIdx selectedTrademarks console =
     renderApplicantMatches toStr es entryIdx selectedTrademarks
       (matchesOfEntry selectedApplicant es entryIdx) console"

text \<open>An entry whose first match has an infinite score, as the JSON text \<open>1e999\<close> gives.\<close>

definition TIGER_with_infinite_score :: JournalTrademarkEntry where
  "TIGER_with_infinite_score =
     TIGER\<lparr>similar_trademarks := Some [TYGER\<lparr>similarity_score := PosInf\<rparr>, TYGER]\<rparr>"

section \<open>Template renderer\<close>

subsection \<open>Strings\<close>

text \<open>\<open>startsWith\<close>, \<open>includes\<close> (here \<open>str_includes\<close>), and \<open>split\<close> at a one-character separator.\<close>

fun startsWith :: "string \<Rightarrow> string \<Rightarrow> bool" where
  "startsWith s [] = True"
| "startsWith [] (p # ps) = False"
| "startsWith (c # cs) (p # ps) = (c = p \<and> startsWith cs ps)"

fun str_includes :: "string \<Rightarrow> string \<Rightarrow> bool" where
  "str_includes [] sub = (sub = [])"
| "str_includes (c # cs) sub = (startsWith (c # cs) sub \<or> str_includes cs sub)"

fun split_on :: "char \<Rightarrow> string \<Rightarrow> string list" where
  "split_on sep [] = [[]]"
| "split_on sep (c # cs) =
     (if c = sep then [] # split_on sep cs
      else (case split_on sep cs of [] \<Rightarrow> [[c]] | p # ps \<Rightarrow> (c # p) # ps))"

text \<open>
  Array destructuring reads positions; a position past the end gives \<open>undefined\<close>.
\<close>

definition nth_opt :: "'a list \<Rightarrow> nat \<Rightarrow> 'a option" where
  "nth_opt xs i = (if i < length xs then Some (xs ! i) else None)"

definition isDigit :: "char \<Rightarrow> bool" where
  "isDigit c = (c \<in> set ''0123456789'')"

definition digit_val :: "char \<Rightarrow> int" where
  "digit_val c = int (length (takeWhile (\<lambda>d. d \<noteq> c) ''0123456789''))"

text \<open>
  \<open>Number(s)\<close> for the strings a date holds: a run of decimal digits is its value, the
  empty string is \<open>0\<close>, and \<open>None\<close> is \<open>NaN\<close>. Signs, fractions, exponents, radix
  prefixes and surrounding white space are outside the model. \<open>Number(undefined)\<close> is
  \<open>NaN\<close>.
\<close>

definition js_Number :: "string \<Rightarrow> int option" where
  "js_Number s =
     (if \<forall>c\<in>set s. isDigit c then Some (foldl (\<lambda>a c. 10 * a + digit_val c) 0 s) else None)"

definition js_Number_opt :: "string option \<Rightarrow> int option" where
  "js_Number_opt s = (case s of None \<Rightarrow> None | Some v \<Rightarrow> js_Number v)"

subsection \<open>Dates of the platform\<close>

text \<open>
  A \<open>Date\<close> is its time value: milliseconds since the epoch, or \<open>NaN\<close> (\<open>None\<close>).
  Day numbers and calendar dates are converted by the usual era arithmetic of the
  proleptic Gregorian calendar; months count from 1 here.
\<close>

definition days_from_civil :: "int \<Rightarrow> int \<Rightarrow> int \<Rightarrow> int" where
  "days_from_civil y m d =
     (let y' = (if m \<le> 2 then y - 1 else y);
          era = y' div 400;
          yoe = y' - era * 400;
          doy = (153 * (if m > 2 then m - 3 else m + 9) + 2) div 5 + d - 1;
          doe = yoe * 365 + yoe div 4 - yoe div 100 + doy
      in era * 146097 + doe - 719468)"

definition civil_from_days :: "int \<Rightarrow> int \<times> int \<times> int" where
  "civil_from_days z0 =
     (let z = z0 + 719468;
          era = z div 146097;
          doe = z - era * 146097;
          yoe = (doe - doe div 1460 + doe div 36524 - doe div 146096) div 365;
          doy = doe - (365 * yoe + yoe div 4 - yoe div 100);
          mp = (5 * doy + 2) div 153;
          d = doy - (153 * mp + 2) div 5 + 1;
          m = (if mp < 10 then mp + 3 else mp - 9);
          y = yoe + era * 400
      in (if m \<le> 2 then y + 1 else y, m, d))"

definition msPerDay :: int where
  "msPerDay = 86400000"

text \<open>
  \<open>MakeDay(year, month, date)\<close> with a month counted from 0: months beyond December
  carry into the year, days beyond the end of the month into the following months.
\<close>

definition MakeDay :: "int \<Rightarrow> int \<Rightarrow> int \<Rightarrow> int" where
  "MakeDay year month date =
     days_from_civil (year + month div 12) (month mod 12 + 1) 1 + date - 1"

definition TimeClip :: "int \<Rightarrow> int option" where
  "TimeClip t = (if \<bar>t\<bar> > 8640000000000000 then None else Some t)"

text \<open>\<open>Date.UTC(year, month, day, hour, minute, second)\<close>; any \<open>NaN\<close> argument gives \<open>NaN\<close>.\<close>

definition Date_UTC ::
  "int option \<Rightarrow> int option \<Rightarrow> int option \<Rightarrow> int option \<Rightarrow> int option \<Rightarrow> int option \<Rightarrow> int option" where
  "Date_UTC year month day hour minute second =
     (case (year, month, day, hour, minute, second) of
        (Some y, Some mo, Some d, Some h, Some mi, Some s) \<Rightarrow>
          (let yr = (if 0 \<le> y \<and> y \<le> 99 then 1900 + y else y)
           in TimeClip (MakeDay yr mo d * msPerDay + h * 3600000 + mi * 60000 + s * 1000))
      | _ \<Rightarrow> None)"

text \<open>
  The host's time zone enters through \<open>getMonth\<close> and \<open>setMonth\<close> only. It is a
  parameter, the function \<open>LocalTZA(t, isUTC)\<close> of the language definition: the offset
  of local time from UTC in milliseconds, at the UTC time \<open>t\<close> when \<open>isUTC\<close> holds and
  at the local time \<open>t\<close> otherwise.
\<close>

type_synonym time_zone = "int \<Rightarrow> bool \<Rightarrow> int"

definition LocalTime :: "time_zone \<Rightarrow> int \<Rightarrow> int" where
  "LocalTime tza t = t + tza t True"

definition UTC_of_local :: "time_zone \<Rightarrow> int \<Rightarrow> int" where
  "UTC_of_local tza t = t - tza t False"

definition Date_getMonth :: "time_zone \<Rightarrow> int option \<Rightarrow> int option" where
  "Date_getMonth tza date =
     (case date of
        None \<Rightarrow> None
      | Some t \<Rightarrow>
          (case civil_from_days (LocalTime tza t div msPerDay) of (y, m, d) \<Rightarrow> Some (m - 1)))"

definition Date_setMonth :: "time_zone \<Rightarrow> int option \<Rightarrow> int option \<Rightarrow> int option" where
  "Date_setMonth tza date month =
     (case (date, month) of
        (Some t, Some mo) \<Rightarrow>
          (let lt = LocalTime tza t
           in case civil_from_days (lt div msPerDay) of
                (y, m, d) \<Rightarrow>
                  TimeClip (UTC_of_local tza (MakeDay y mo d * msPerDay + lt mod msPerDay)))
      | _ \<Rightarrow> None)"

text \<open>India Standard Time, and what is asked of a host zone below.\<close>

definition IST :: time_zone where
  "IST t isUTC = 19800000"

definition plausible_zone :: "time_zone \<Rightarrow> bool" where
  "plausible_zone tza =
     ((\<forall>t u. \<bar>tza t u\<bar> \<le> 50400000) \<and> (\<forall>t u t' u'. \<bar>tza t u - tza t' u'\<bar> \<le> 7200000))"

definition monthNames :: "string list" where
  "monthNames = [''January'', ''February'', ''March'', ''April'', ''May'', ''June'', ''July'',
     ''August'', ''September'', ''October'', ''November'', ''December'']"

text \<open>
  \<open>toLocaleDateString('en-IN', {month: 'long', day: 'numeric', year: 'numeric', timeZone:
  'Asia/Kolkata'})\<close>: the calendar date at UTC+05:30 in the pattern of the locale, day,
  month name, year. An invalid date is rendered as \<open>Invalid Date\<close>. Years before 1 are
  outside the model, and so are the dates before 15 October 1945, at which the zone had
  other offsets.
\<close>

definition toLocaleDateString_enIN :: "int option \<Rightarrow> string" where
  "toLocaleDateString_enIN date =
     (case date of
        None \<Rightarrow> ''Invalid Date''
      | Some t \<Rightarrow>
          (case civil_from_days ((t + 330 * 60000) div msPerDay) of
             (y, m, d) \<Rightarrow>
               show_nat (nat d) @ '' '' @ monthNames ! nat (m - 1) @ '' '' @ show_nat (nat y)))"

subsection \<open>Dates of the page\<close>

text \<open>
  \<open>second || 0\<close>: \<open>NaN\<close> and \<open>undefined\<close> become \<open>0\<close>.
\<close>

definition secondOrZero :: "int option \<Rightarrow> int option" where
  "secondOrZero s = (case s of None \<Rightarrow> Some 0 | Some v \<Rightarrow> Some v)"

definition minus1 :: "int option \<Rightarrow> int option" where
  "minus1 m = map_option (\<lambda>v. v - 1) m"

text \<open>
  \<open>parseServerDate\<close> (email-templates/page.tsx, lines 207-231). Nothing in the \<open>try\<close>
  block throws on a string that passed the \<open>includes\<close> test of its branch, so the
  \<open>catch\<close> is never entered.
\<close>

definition parseServerDate :: "string \<Rightarrow> int option" where
  "parseServerDate dateString =
     (if str_includes dateString ''T'' then
        (let parts = split_on (CHR ''T'') dateString;
             datePart = nth_opt parts 0; timePart = nth_opt parts 1;
             ymd = map js_Number (case datePart of None \<Rightarrow> [] | Some p \<Rightarrow> split_on (CHR ''-'') p);
             timeWithoutMicroseconds =
               (case timePart of None \<Rightarrow> None | Some p \<Rightarrow> nth_opt (split_on (CHR ''.'') p) 0);
             hms = map js_Number
               (case timeWithoutMicroseconds of None \<Rightarrow> [] | Some p \<Rightarrow> split_on (CHR '':'') p)
         in Date_UTC (Option.bind (nth_opt ymd 0) id) (minus1 (Option.bind (nth_opt ymd 1) id))
              (Option.bind (nth_opt ymd 2) id) (Option.bind (nth_opt hms 0) id)
              (Option.bind (nth_opt hms 1) id) (secondOrZero (Option.bind (nth_opt hms 2) id)))
      else if str_includes dateString '' '' then
        (let parts = split_on (CHR '' '') dateString;
             datePart = nth_opt parts 0; timePart = nth_opt parts 1;
             ymd = map js_Number (case datePart of None \<Rightarrow> [] | Some p \<Rightarrow> split_on (CHR ''-'') p);
             hms = map js_Number (case timePart of None \<Rightarrow> [] | Some p \<Rightarrow> split_on (CHR '':'') p)
         in Date_UTC (Option.bind (nth_opt ymd 0) id) (minus1 (Option.bind (nth_opt ymd 1) id))
              (Option.bind (nth_opt ymd 2) id) (Option.bind (nth_opt hms 0) id)
              (Option.bind (nth_opt hms 1) id) (secondOrZero (Option.bind (nth_opt hms 2) id)))
      else
        (let ymd = map js_Number (split_on (CHR ''-'') dateString)
         in Date_UTC (Option.bind (nth_opt ymd 0) id) (minus1 (Option.bind (nth_opt ymd 1) id))
              (Option.bind (nth_opt ymd 2) id) (Some 0) (Some 0) (Some 0)))"

text \<open>\<open>formatDate\<close> (lines 233-245) and \<open>formatOppositionDeadline\<close> (lines 247-261).\<close>

definition formatDate :: "string \<Rightarrow> string" where
  "formatDate dateString = (let date = parseServerDate dateString in toLocaleDateString_enIN date)"

definition formatOppositionDeadline :: "time_zone \<Rightarrow> string \<Rightarrow> string" where
  "formatOppositionDeadline tza mondayDate =
     (let date = parseServerDate mondayDate;
          date1 = Date_setMonth tza date (map_option (\<lambda>m. m + 4) (Date_getMonth tza date))
      in toLocaleDateString_enIN date1)"

subsection \<open>Text of the notice\<close>

definition nl :: string where
  "nl = [CHR 0x0A]"

definition tab :: string where
  "tab = [CHR 0x09]"

text \<open>
  The regular expression \<open>/Journal_(\d+)/\<close>: the leftmost place where \<open>Journal_\<close> is
  followed by a digit, and the longest run of digits there.
\<close>

fun journalMatch :: "string \<Rightarrow> string option" where
  "journalMatch [] = None"
| "journalMatch (c # cs) =
     (if startsWith (c # cs) ''Journal_'' \<and> takeWhile isDigit (drop 8 (c # cs)) \<noteq> []
      then Some (takeWhile isDigit (drop 8 (c # cs)))
      else journalMatch cs)"

text \<open>\<open>formatJournalInfo\<close> (lines 263-276).\<close>

definition formatJournalInfo :: "string \<Rightarrow> string option \<Rightarrow> string" where
  "formatJournalInfo mondayDate pdfSource =
     (let journalNumber =
            (case pdfSource of
               None \<Rightarrow> []
             | Some p \<Rightarrow> (if p = [] then [] else (case journalMatch p of None \<Rightarrow> [] | Some ds \<Rightarrow> ds)));
          formattedDate = formatDate mondayDate
      in if journalNumber \<noteq> [] then journalNumber @ '' '' @ formattedDate else formattedDate)"

text \<open>
  The three replacements of \<open>formatPdfSource\<close> (lines 278-291): \<open>/\.pdf$/i\<close>,
  \<open>/_/g\<close> and \<open>/\s+/g\<close>.
\<close>

definition strip_pdf_ext :: "string \<Rightarrow> string" where
  "strip_pdf_ext s =
     (case rev s of
        f # d # p # dot # rest \<Rightarrow>
          (if dot = CHR ''.'' \<and> (p = CHR ''p'' \<or> p = CHR ''P'') \<and> (d = CHR ''d'' \<or> d = CHR ''D'') \<and>
              (f = CHR ''f'' \<or> f = CHR ''F'')
           then rev rest else s)
      | _ \<Rightarrow> s)"

definition underscores_to_spaces :: "string \<Rightarrow> string" where
  "underscores_to_spaces s = map (\<lambda>c. if c = CHR ''_'' then CHR '' '' else c) s"

fun collapse_spaces :: "bool \<Rightarrow> string \<Rightarrow> string" where
  "collapse_spaces inRun [] = []"
| "collapse_spaces inRun (c # cs) =
     (if isWhiteSpace c
      then (if inRun then collapse_spaces True cs else CHR '' '' # collapse_spaces True cs)
      else c # collapse_spaces False cs)"

definition formatPdfSource :: "string option \<Rightarrow> string" where
  "formatPdfSource pdfSource =
     (case pdfSource of
        None \<Rightarrow> ''N/A''
      | Some p \<Rightarrow>
          (if p = [] then ''N/A''
           else trim (collapse_spaces False (underscores_to_spaces (strip_pdf_ext p)))))"

text \<open>The lines of one selected match (lines 314-323).\<close>

definition renderSim :: "SimilarTrademark \<Rightarrow> string" where
  "renderSim sm =
     (let classValue0 = optOrText (trademark_class sm) ''N/A'';
          classValue = (if startsWith classValue0 ''Class '' then drop 6 classValue0
                        else classValue0)
      in ''Trademark: '' @ orText (mark sm) ''N/A'' @ nl @
         ''Class: '' @ classValue @ nl @
         nl)"

text \<open>
  The block of one journal entry (lines 303-329); \<open>n\<close> is the number of entries of the
  group and \<open>arrayIndex\<close> the position of this one.
\<close>

definition renderEntry ::
  "string \<Rightarrow> nat \<Rightarrow> nat \<Rightarrow> nat \<times> entry_group \<Rightarrow> string" where
  "renderEntry mondayDate n arrayIndex en =
     (case en of (entryIdx, e, similarTrademarks) \<Rightarrow>
        ''Trademark: '' @
          (case mark_name e of
             Some m \<Rightarrow> (if m \<noteq> [] then m else optOrText (entry_mark e) ''N/A'')
           | None \<Rightarrow> optOrText (entry_mark e) ''N/A'') @ nl @
        ''Class: '' @ optOrText (entry_trademark_class e) ''N/A'' @ tab @ tab @ nl @
        ''Source PDF Journal: '' @ formatPdfSource (pdf_source e) @ nl @
        ''Trademark Journal Date: '' @ formatJournalInfo mondayDate (pdf_source e) @ tab @ nl @
        ''Page No: '' @
          (case page_number e of
             None \<Rightarrow> ''N/A''
           | Some p \<Rightarrow> (if p = 0 then ''N/A'' else show_nat p)) @ nl @ nl @
        ''The aforesaid advertised trademark conflict with your following Registered Trademark.'' @
          nl @ nl @
        concat (map renderSim similarTrademarks) @
        (if int arrayIndex < int n - 1 then nl else []))"

fun renderEntries :: "string \<Rightarrow> nat \<Rightarrow> nat \<Rightarrow> applicant_entries \<Rightarrow> string" where
  "renderEntries mondayDate n arrayIndex [] = []"
| "renderEntries mondayDate n arrayIndex (en # ens) =
     renderEntry mondayDate n arrayIndex en @ renderEntries mondayDate n (Suc arrayIndex) ens"

text \<open>\<open>generateEmailTemplate\<close> (lines 293-339).\<close>

definition generateEmailTemplate ::
  "time_zone \<Rightarrow> string \<Rightarrow> applicant_entries \<Rightarrow> string \<Rightarrow> string" where
  "generateEmailTemplate tza applicantNm ens mondayDate =
     (let deadline = formatOppositionDeadline tza mondayDate
      in ''Dear Sir/Ma'' @ [CHR 0x27] @ ''am,'' @ nl @ nl @
         ''We wish to draw your immediate attention to an application advertised in Trademark Journal, details of which are appearing herein below:'' @
           nl @ nl @
         renderEntries mondayDate (length ens) 0 ens @
         ''We are of the opinion that you should take necessary action to prevent the registration of the said trade mark, for which you need to file a Notice of Opposition on or before '' @
           deadline @ ''.'' @ nl @ nl @
         ''If you wish to file a Notice of Opposition, kindly let us have your necessary instructions in this regard.'' @
           nl @ nl @
         ''Should you need further assistance in this regard, please feel free to contact us.'' @
           nl @ nl @
         ''Kindly, acknowledge safe receipt of this email.'' @ nl @ nl @ nl @ nl @
         ''Thanks and Regards,'')"

text \<open>
  The templates the page shows (lines 413-416), one for each group; without a report the
  template is empty.
\<close>

definition emailTemplates ::
  "time_zone \<Rightarrow> ApplicantGroup list \<Rightarrow> ReportData option \<Rightarrow> string list" where
  "emailTemplates tza applicantGroups reportData =
     map (\<lambda>g. case reportData of
                 None \<Rightarrow> []
               | Some rd \<Rightarrow>
                   generateEmailTemplate tza (applicantName g) (group_entries g)
                     (monday_date rd))
       applicantGroups"

definition lines_of :: "string \<Rightarrow> string list" where
  "lines_of s = split_on (CHR 0x0A) s"

text \<open>The report of the scenario: the entry \<open>TIGER\<close> alone, reference Monday 2025-01-06.\<close>

definition scenario_report :: ReportData where
  "scenario_report = \<lparr>report_id = ''r-1'', monday_date = ''2025-01-06'',
     report_date = ''2025-01-06'', entries_with_similarities = Some [TIGER],
     entries = None, journal_entries = None\<rparr>"

text \<open>
  The scenario, end to end: the match is ticked on the report page, the selected pairs are
  collected and handed over, the template page groups them and renders one template for
  each group.
\<close>

definition scenario_templates :: "time_zone \<Rightarrow> string list" where
  "scenario_templates tza =
     emailTemplates tza
       (applicantGroupsOf
          (getSelectedTrademarksData (Some scenario_report) (handleTrademarkSelect 0 0 True [])))
       (Some scenario_report)"

text \<open>
  The text of the one template of the scenario; it is shown below to be what the page
  renders.
\<close>

definition scenario_text :: string where
  "scenario_text =
     ''Dear Sir/Ma'' @ [CHR 0x27] @ ''am,'' @ nl @ nl @
      ''We wish to draw your immediate attention to an application advertised in Trademark Journal, details of which are appearing herein below:'' @
        nl @ nl @
      ''Trademark: TIGER'' @ nl @
      ''Class: 25'' @ tab @ tab @ nl @
      ''Source PDF Journal: Journal 2237 Class25'' @ nl @
      ''Trademark Journal Date: 2237 6 January 2025'' @ tab @ nl @
      ''Page No: N/A'' @ nl @ nl @
      ''The aforesaid advertised trademark conflict with your following Registered Trademark.'' @
        nl @ nl @
      ''Trademark: TYGER'' @ nl @
      ''Class: 25'' @ nl @
      nl @
      ''We are of the opinion that you should take necessary action to prevent the registration of the said trade mark, for which you need to file a Notice of Opposition on or before 6 May 2025.'' @
        nl @ nl @
      ''If you wish to file a Notice of Opposition, kindly let us have your necessary instructions in this regard.'' @
        nl @ nl @
      ''Should you need further assistance in this regard, please feel free to contact us.'' @
        nl @ nl @
      ''Kindly, acknowledge safe receipt of this email.'' @ nl @ nl @ nl @ nl @
      ''Thanks and Regards,''"

section \<open>Session storage between the two pages\<close>

text \<open>
  \<open>sessionStorage\<close> is a map from keys to strings. \<open>JSON.parse\<close> and
  \<open>JSON.stringify\<close> belong to the platform and are parameters: a parser returns
  \<open>None\<close> where \<open>JSON.parse\<close> throws. The parsed selection is an array or some other
  value; an element of the array is a selected pair or \<open>null\<close>. The parsed report is a
  report or \<open>null\<close>. Parsed values of other shapes are outside the model.
\<close>

type_synonym storage = "string \<rightharpoonup> string"

datatype parsed_selection = NotAnArray | AnArray "SelectedTrademark option list"

record TemplatesPage =
  page_selectedTrademarks :: "SelectedTrademark list"
  page_reportData :: "ReportData option"
  page_error :: "string option"
  page_loading :: bool

text \<open>The state the page starts with (lines 61-65).\<close>

definition initialTemplatesPage :: TemplatesPage where
  "initialTemplatesPage =
     \<lparr>page_selectedTrademarks = [], page_reportData = None, page_error = None, page_loading = True\<rparr>"

text \<open>\<open>!s\<close> for the result of \<open>getItem\<close>: the key is missing or holds the empty string.\<close>

definition noItem :: "string option \<Rightarrow> bool" where
  "noItem s = (case s of None \<Rightarrow> True | Some v \<Rightarrow> v = [])"

text \<open>The \<open>catch\<close> branch of the loading effect (lines 106-113).\<close>

definition loadFailed :: "storage \<Rightarrow> TemplatesPage \<Rightarrow> storage \<times> TemplatesPage" where
  "loadFailed store page =
     (store(''selectedTrademarks'' := None, ''reportData'' := None),
      page\<lparr>page_error := Some ''Failed to load selected trademarks data. Please go back and try again.'',
           page_loading := False\<rparr>)"

text \<open>
  The loading effect of the template page (email-templates/page.tsx, lines 68-114).
  \<open>unauthenticated\<close> stands for \<open>!authLoading && !user?.authenticated\<close>, on which the
  page redirects and reads nothing. Both texts are parsed before the selection is
  validated. The log of the loaded pairs (lines 97-102) reads \<open>t.sim\<close> of every element
  and so throws on a \<open>null\<close> element, inside the \<open>try\<close>.
\<close>

definition loadFromSessionStorage ::
  "(string \<Rightarrow> parsed_selection option) \<Rightarrow> (string \<Rightarrow> ReportData option option) \<Rightarrow> bool \<Rightarrow>
   storage \<Rightarrow> TemplatesPage \<Rightarrow> storage \<times> TemplatesPage" where
  "loadFromSessionStorage parseSelection parseReport unauthenticated store page =
     (if unauthenticated then (store, page)
      else
        (let storedTrademarks = store ''selectedTrademarks'';
             storedReportData = store ''reportData''
         in if noItem storedTrademarks \<or> noItem storedReportData
            then (store,
                  page\<lparr>page_error := Some ''No selected trademarks found. Please go back and select trademarks.'',
                       page_loading := False\<rparr>)
            else
              (case (Option.bind storedTrademarks parseSelection,
                     Option.bind storedReportData parseReport) of
                 (Some trademarks, Some report) \<Rightarrow>
                   (case trademarks of
                      AnArray ts \<Rightarrow>
                        (if ts = []
                         then (store,
                               page\<lparr>page_error := Some ''No valid selected trademarks found. Please go back and select trademarks.'',
                                    page_loading := False\<rparr>)
                         else if None \<in> set ts then loadFailed store page
                         else (store,
                               page\<lparr>page_selectedTrademarks := map the ts,
                                    page_reportData := report\<rparr>))
                    | NotAnArray \<Rightarrow>
                        (store,
                         page\<lparr>page_error := Some ''No valid selected trademarks found. Please go back and select trademarks.'',
                              page_loading := False\<rparr>))
               | _ \<Rightarrow> loadFailed store page)))"

text \<open>
  \<open>handleGenerateTemplates\<close> (ReportGenerationTab.tsx, lines 648-673): what the click
  does to the storage, and whether it navigates to the template page or shows the alert.
\<close>

datatype generate_outcome = AlertShown string | Navigated string

definition handleGenerateTemplates ::
  "(SelectedTrademark list \<Rightarrow> string) \<Rightarrow> (ReportData option \<Rightarrow> string) \<Rightarrow> string \<Rightarrow>
   ReportData option \<Rightarrow> string_set \<Rightarrow> storage \<Rightarrow> storage \<times> generate_outcome" where
  "handleGenerateTemplates stringifySelection stringifyReport reportId rd selected store =
     (let selectedData = getSelectedTrademarksData rd selected
      in if selectedData = []
         then (store,
               AlertShown ''Please select at least one trademark to generate email templates.'')
         else
           (let store1 = store(''selectedTrademarks'' := None);
                store2 = store1(''reportData'' := None);
                store3 = store2(''selectedTrademarks'' \<mapsto> stringifySelection selectedData);
                store4 = store3(''reportData'' \<mapsto> stringifyReport rd)
            in (store4, Navigated (''/app/report/'' @ reportId @ ''/email-templates''))))"

text \<open>
  Sample parsers for the closed statements below: they accept the strings shown and throw
  on every other.
\<close>

definition sample_selection :: "SelectedTrademark list" where
  "sample_selection = [\<lparr>entry = TIGER, sim = TYGER, entryIndex = 0, simIndex = 0\<rparr>]"

definition sample_parseSelection :: "string \<Rightarrow> parsed_selection option" where
  "sample_parseSelection s =
     (if s = ''[selection]'' then Some (AnArray (map Some sample_selection))
      else if s = ''[]'' then Some (AnArray [])
      else if s = ''[null]'' then Some (AnArray [None])
      else if s = ''{}'' then Some NotAnArray
      else None)"

definition sample_parseReport :: "string \<Rightarrow> ReportData option option" where
  "sample_parseReport s =
     (if s = ''{report}'' then Some (Some scenario_report)
      else if s = ''null'' then Some None
      else None)"

definition sample_store :: storage where
  "sample_store = [''selectedTrademarks'' \<mapsto> ''[selection]'', ''reportData'' \<mapsto> ''{report}'']"

section \<open>Selection tracker: properties\<close>

lemma set_handleTrademarkSelect:
  "set (handleTrademarkSelect e s c S) =
     (if c then insert (trademarkId e s) (set S) else set S - {trademarkId e s})"
  by (auto simp: handleTrademarkSelect_def set_add_def set_delete_def Let_def)

lemma toggle_count_Cons:
  "toggle_count k ((e, s, c) # ops) =
     (if trademarkId e s = k then Suc (toggle_count k ops) else toggle_count k ops)"
  by (simp add: toggle_count_def)

lemma flipping_parity:
  "flipping ops S \<Longrightarrow>
   set (run_selects ops S) = {k. (k \<in> set S) \<noteq> odd (toggle_count k ops)}"
proof (induction ops arbitrary: S)
  case Nil
  show ?case by (simp add: toggle_count_def)
next
  case (Cons op ops)
  obtain e s c where op: "op = (e, s, c)" by (cases op)
  from Cons.prems have both:
    "c = (\<not> set_has S (trademarkId e s)) \<and> flipping ops (handleTrademarkSelect e s c S)"
    unfolding op flipping.simps .
  from both have c: "c = (trademarkId e s \<notin> set S)"
    by (simp add: set_has_def)
  from both have rest: "flipping ops (handleTrademarkSelect e s c S)" ..
  from Cons.IH [OF rest] have
    "set (run_selects (op # ops) S) =
       {k. (k \<in> set (handleTrademarkSelect e s c S)) \<noteq> odd (toggle_count k ops)}"
    by (simp add: op)
  also have "\<dots> = {k. (k \<in> set S) \<noteq> odd (toggle_count k (op # ops))}"
    using c by (auto simp: set_handleTrademarkSelect op toggle_count_Cons)
  finally show ?case .
qed

text \<open>
  C5, as stated: after any sequence of calls from the empty set, the active set is the set
  of keys addressed an odd number of times. It fails: the call carries the target state,
  so two calls with \<open>checked = true\<close> on one key (a row checkbox, then the header
  checkbox of the same entry) leave the key selected after two calls, an even number.
\<close>

theorem C5_odd_toggles_counterexample:
  "trademarkId 0 0 \<in> set (run_selects [(0, 0, True), (0, 0, True)] []) \<and>
   toggle_count (trademarkId 0 0) [(0, 0, True), (0, 0, True)] = 2"
proof -
  have "trademarkId 0 0 \<in> set (run_selects [(0, 0, True), (0, 0, True)] [])"
    by (simp add: set_handleTrademarkSelect)
  moreover have "toggle_count (trademarkId 0 0) [(0, 0, True), (0, 0, True)] = 2"
    by (simp add: toggle_count_Cons toggle_count_def)
  ultimately show ?thesis ..
qed

text \<open>
  C5, amended: when every call of the sequence carries the negation of its key's
  membership at that moment (what a row checkbox sends), the active set reached from the
  empty set is the set of keys addressed an odd number of times.
\<close>

theorem C5_flipping_odd_toggles:
  "flipping ops [] \<Longrightarrow> set (run_selects ops []) = {k. odd (toggle_count k ops)}"
  using flipping_parity [of ops "[]"] by simp

theorem C5_flipping_odd_toggles_witness:
  "flipping [(0, 0, True), (1, 2, True), (0, 0, False)] [] \<and>
   set (run_selects [(0, 0, True), (1, 2, True), (0, 0, False)] []) =
     {k. odd (toggle_count k [(0, 0, True), (1, 2, True), (0, 0, False)])}"
proof -
  have h: "flipping [(0, 0, True), (1, 2, True), (0, 0, False)] []" by code_simp
  show ?thesis using h C5_flipping_odd_toggles [OF h] by simp
qed

section \<open>Match sequence of an entry: properties\<close>

lemma similarTrademarksOf_first_present:
  "similarTrademarksOf e = first_present (alternative_fields e)"
  by (simp add: similarTrademarksOf_def first_present_def alternative_fields_def
      split: option.splits)

lemma first_present_no_empty:
  "\<forall>f\<in>set fs. f \<noteq> Some [] \<Longrightarrow> first_present fs = spec_first_nonempty fs"
proof -
  assume a: "\<forall>f\<in>set fs. f \<noteq> Some []"
  have "List.find (\<lambda>f. f \<noteq> None) fs = List.find (\<lambda>f. f \<noteq> None \<and> f \<noteq> Some []) fs"
    using a by (induction fs) auto
  then show ?thesis by (simp add: first_present_def spec_first_nonempty_def)
qed

text \<open>
  C7, as stated: the sequence used is the first non-empty one among the four alternatives.
  It fails: an entry whose \<open>similar_trademarks\<close> is present and empty and whose
  \<open>matches\<close> holds a match is given the empty sequence, since an empty array is truthy.
\<close>

theorem C7_first_nonempty_counterexample:
  "similarTrademarksOf (TIGER\<lparr>similar_trademarks := Some [], matches := Some [TYGER]\<rparr>) = [] \<and>
   spec_first_nonempty
     (alternative_fields (TIGER\<lparr>similar_trademarks := Some [], matches := Some [TYGER]\<rparr>)) =
     [TYGER]"
  by (simp add: similarTrademarksOf_def spec_first_nonempty_def alternative_fields_def TIGER_def)

text \<open>
  C7, amended: the sequence used is that of the first alternative that is present, empty
  or not; it is the empty sequence when no alternative is present; and it is the first
  non-empty sequence whenever no present alternative is empty.
\<close>

theorem C7_first_present_field:
  "similarTrademarksOf e = first_present (alternative_fields e) \<and>
   ((\<forall>f\<in>set (alternative_fields e). f = None) \<longrightarrow> similarTrademarksOf e = []) \<and>
   ((\<forall>f\<in>set (alternative_fields e). f \<noteq> Some []) \<longrightarrow>
      similarTrademarksOf e = spec_first_nonempty (alternative_fields e))"
proof (intro conjI impI)
  show "similarTrademarksOf e = first_present (alternative_fields e)"
    by (rule similarTrademarksOf_first_present)
next
  assume "\<forall>f\<in>set (alternative_fields e). f = None"
  then show "similarTrademarksOf e = []"
    by (simp add: similarTrademarksOf_def alternative_fields_def)
next
  assume "\<forall>f\<in>set (alternative_fields e). f \<noteq> Some []"
  then show "similarTrademarksOf e = spec_first_nonempty (alternative_fields e)"
    by (simp only: similarTrademarksOf_first_present first_present_no_empty)
qed

theorem C7_first_present_field_witness:
  "similarTrademarksOf (TIGER\<lparr>similar_trademarks := None, similarities := Some [TYGER]\<rparr>) =
     [TYGER] \<and>
   similarTrademarksOf (TIGER\<lparr>similar_trademarks := None\<rparr>) = [] \<and>
   spec_first_nonempty
     (alternative_fields (TIGER\<lparr>similar_trademarks := None, similarities := Some [TYGER]\<rparr>)) =
     [TYGER]"
  using C7_first_present_field [of "TIGER\<lparr>similar_trademarks := None, similarities := Some [TYGER]\<rparr>"]
    C7_first_present_field [of "TIGER\<lparr>similar_trademarks := None\<rparr>"]
  by (simp add: alternative_fields_def first_present_def spec_first_nonempty_def TIGER_def)

section \<open>Floating-point numbers: properties\<close>

text \<open>The doubles that the literals of the source denote.\<close>

lemma round_double_zero: "round_double 0 = Finite 0"
  by (simp add: round_double_def)

lemma round_double_1e4:
  "round_double (1 / 10000) = Finite (7378697629483821 / 73786976294838206464)"
  unfolding round_double_def binade_def Let_def
  by (simp add: exp_down.simps two_pow_def, simp add: round_half_even_def Let_def)

lemma round_double_0_3:
  "round_double (3 / 10) = Finite (5404319552844595 / 18014398509481984)"
  unfolding round_double_def binade_def Let_def
  by (simp add: exp_down.simps two_pow_def, simp add: round_half_even_def Let_def)

lemma round_double_0_5: "round_double (5 / 10) = Finite (1 / 2)"
  unfolding round_double_def binade_def Let_def
  by (simp add: exp_down.simps two_pow_def, simp add: round_half_even_def Let_def)

lemma round_double_0_7:
  "round_double (7 / 10) = Finite (3152519739159347 / 4503599627370496)"
  unfolding round_double_def binade_def Let_def
  by (simp add: exp_down.simps two_pow_def, simp add: round_half_even_def Let_def)

lemma round_double_0_8:
  "round_double (8 / 10) = Finite (3602879701896397 / 4503599627370496)"
  unfolding round_double_def binade_def Let_def
  by (simp add: exp_down.simps two_pow_def, simp add: round_half_even_def Let_def)

lemma round_double_0_85:
  "round_double (85 / 100) = Finite (7656119366529843 / 9007199254740992)"
  unfolding round_double_def binade_def Let_def
  by (simp add: exp_down.simps two_pow_def, simp add: round_half_even_def Let_def)

lemma round_double_0_8501:
  "round_double (8501 / 10000) = Finite (7657020086455317 / 9007199254740992)"
  unfolding round_double_def binade_def Let_def
  by (simp add: exp_down.simps two_pow_def, simp add: round_half_even_def Let_def)

lemma round_double_0_86:
  "round_double (86 / 100) = Finite (7746191359077253 / 9007199254740992)"
  unfolding round_double_def binade_def Let_def
  by (simp add: exp_down.simps two_pow_def, simp add: round_half_even_def Let_def)

text \<open>The same facts with the fractions in lowest terms.\<close>

lemma round_double_lowest_terms:
  "round_double (1 / 2) = Finite (1 / 2)"
  "round_double (4 / 5) = Finite (3602879701896397 / 4503599627370496)"
  "round_double (17 / 20) = Finite (7656119366529843 / 9007199254740992)"
  "round_double (43 / 50) = Finite (7746191359077253 / 9007199254740992)"
  using round_double_0_5 round_double_0_8 round_double_0_85 round_double_0_86 by simp_all

lemmas round_double_literals =
  round_double_1e4 round_double_0_3 round_double_0_7 round_double_0_8501
  round_double_lowest_terms

text \<open>
  \<open>85 / 100\<close> is the double that the literal \<open>0.85\<close> denotes, and \<open>0.85 * 100\<close> is
  \<open>85\<close> again.
\<close>

lemma div100_85: "div100 (Finite 85) = round_double (85 / 100)"
  by simp

lemma div100_50: "div100 (Finite 50) = Finite (1 / 2)"
  unfolding div100.simps round_double_def binade_def Let_def
  by (simp add: exp_down.simps two_pow_def, simp add: round_half_even_def Let_def)

lemma times100_85: "times100 (Finite 85) = Finite 8500"
  unfolding times100.simps round_double_def binade_def Let_def
  by (simp add: exp_up.simps two_pow_def, simp add: round_half_even_def Let_def)

lemma times100_0_85: "times100 (round_double (85 / 100)) = Finite 85"
  unfolding round_double_0_85 times100.simps
  unfolding round_double_def binade_def Let_def
  by (simp add: exp_up.simps two_pow_def, simp add: round_half_even_def Let_def)

text \<open>
  The rounded difference of \<open>0.85\<close> and \<open>0.8501\<close> is below the double \<open>0.0001\<close>, though
  the decimals are exactly \<open>0.0001\<close> apart.
\<close>

lemma d_sub_0_85_0_8501:
  "d_sub (round_double (85 / 100)) (round_double (8501 / 10000)) =
     Finite (- (450359962737 / 4503599627370496))"
  unfolding round_double_0_85 round_double_0_8501 d_sub.simps
  unfolding round_double_def binade_def Let_def
  by (simp add: exp_down.simps two_pow_def, simp add: round_half_even_def Let_def)

lemma d_sub_0_86_0_85:
  "d_sub (round_double (86 / 100)) (round_double (85 / 100)) =
     Finite (45035996273705 / 4503599627370496)"
  unfolding round_double_0_85 round_double_0_86 d_sub.simps
  unfolding round_double_def binade_def Let_def
  by (simp add: exp_down.simps two_pow_def, simp add: round_half_even_def Let_def)

lemma orZero_not_NaN: "orZero a \<noteq> NaN"
  by (simp add: orZero_def)

lemma orZero_infinite: "orZero a = PosInf \<longleftrightarrow> a = PosInf" "orZero a = NegInf \<longleftrightarrow> a = NegInf"
  by (auto simp: orZero_def)

lemma d_ge_finite_not_infinite:
  "d_ge (normalizedScore a) (Finite t) \<Longrightarrow> a \<noteq> NegInf \<and> a \<noteq> NaN"
  by (cases a) (auto simp: d_ge_def normalizedScore_def)

section \<open>Index reconciler: properties\<close>


lemma findIndex_None_iff: "findIndex P xs = None \<longleftrightarrow> (\<forall>x\<in>set xs. \<not> P x)"
  by (induction xs) auto


text \<open>
  The score test of the code is the specified agreement of scores: it holds between a
  score and itself unless the score is infinite, and never with an infinite score.
\<close>

lemma score_test_spec:
  "d_less (d_abs (d_sub (orZero a) (orZero b))) (round_double (1 / 10000)) \<longleftrightarrow>
   spec_scores_agree a b"
  by (cases "orZero a"; cases "orZero b") (simp_all add: spec_scores_agree_def)

lemma spec_scores_agree_refl:
  assumes "a \<noteq> PosInf" and "a \<noteq> NegInf"
  shows "spec_scores_agree a a"
proof -
  from assms have "\<exists>x. orZero a = Finite x"
    by (cases a) (simp_all add: orZero_def)
  then obtain x where x: "orZero a = Finite x" ..
  show ?thesis
    by (simp add: spec_scores_agree_def x round_double_zero round_double_1e4)
qed

lemma spec_scores_agree_infinite:
  assumes "a = PosInf \<or> a = NegInf"
  shows "\<not> spec_scores_agree a b" and "\<not> spec_scores_agree b a"
  using assms by (auto simp: spec_scores_agree_def orZero_def split: double.splits)

lemma sameSimApplicantView_spec: "sameSimApplicantView sm s \<longleftrightarrow> spec_same_match s sm"
  by (auto simp: sameSimApplicantView_def spec_same_match_def score_test_spec)

text \<open>
  The similar-trademarks table tests the same agreement without the class.
\<close>

lemma sameSimTableView_spec:
  "sameSimTableView sm s \<longleftrightarrow>
   mark s = mark sm \<and> applicant_name s = applicant_name sm \<and>
   spec_scores_agree (similarity_score s) (similarity_score sm)"
  by (auto simp: sameSimTableView_def score_test_spec)

lemma spec_same_match_refl:
  "similarity_score sm \<noteq> PosInf \<Longrightarrow> similarity_score sm \<noteq> NegInf \<Longrightarrow> spec_same_match sm sm"
  by (simp add: spec_same_match_def spec_scores_agree_refl)

text \<open>
  Scores of the sample match: \<open>0.85\<close> agrees with \<open>0.8501\<close>, whose rounded distance
  is just below \<open>0.0001\<close>, and not with \<open>0.86\<close>; an infinite score does not agree
  with itself.
\<close>

lemma spec_scores_agree_samples:
  "spec_scores_agree (round_double (85 / 100)) (round_double (85 / 100))"
  "spec_scores_agree (round_double (85 / 100)) (round_double (8501 / 10000))"
  "\<not> spec_scores_agree (round_double (86 / 100)) (round_double (85 / 100))"
  "\<not> spec_scores_agree PosInf PosInf"
proof -
  show "spec_scores_agree (round_double (85 / 100)) (round_double (85 / 100))"
    by (rule spec_scores_agree_refl) (simp_all add: round_double_literals)
  have "orZero (round_double (85 / 100)) = round_double (85 / 100)"
    "orZero (round_double (8501 / 10000)) = round_double (8501 / 10000)"
    "orZero (round_double (86 / 100)) = round_double (86 / 100)"
    by (simp_all add: orZero_def round_double_literals)
  then have code:
    "spec_scores_agree (round_double (85 / 100)) (round_double (8501 / 10000)) \<longleftrightarrow>
       d_less (d_abs (d_sub (round_double (85 / 100)) (round_double (8501 / 10000))))
         (round_double (1 / 10000))"
    "spec_scores_agree (round_double (86 / 100)) (round_double (85 / 100)) \<longleftrightarrow>
       d_less (d_abs (d_sub (round_double (86 / 100)) (round_double (85 / 100))))
         (round_double (1 / 10000))"
    using score_test_spec [of "round_double (85 / 100)" "round_double (8501 / 10000)"]
      score_test_spec [of "round_double (86 / 100)" "round_double (85 / 100)"]
    by simp_all
  show "spec_scores_agree (round_double (85 / 100)) (round_double (8501 / 10000))"
    unfolding code d_sub_0_85_0_8501 round_double_1e4 by simp
  show "\<not> spec_scores_agree (round_double (86 / 100)) (round_double (85 / 100))"
    unfolding code d_sub_0_86_0_85 round_double_1e4 by simp
  show "\<not> spec_scores_agree PosInf PosInf"
    by (simp add: spec_scores_agree_def orZero_def)
qed

text \<open>
  A match with the score \<open>0.8501\<close> behind one that differs from it in the score only,
  \<open>0.85\<close>, is taken for that one by both reconcilers.
\<close>

lemma reconciler_takes_near_score:
  "actualSimIndexApplicantView [TYGER, TYGER\<lparr>similarity_score := round_double (8501 / 10000)\<rparr>]
     (TYGER\<lparr>similarity_score := round_double (8501 / 10000)\<rparr>) = Some 0 \<and>
   actualSimIndexTableView [TYGER, TYGER\<lparr>similarity_score := round_double (8501 / 10000)\<rparr>]
     (TYGER\<lparr>similarity_score := round_double (8501 / 10000)\<rparr>) = Some 0"
proof -
  have s: "spec_scores_agree (similarity_score TYGER) (round_double (8501 / 10000))"
    using spec_scores_agree_samples(2) by (simp add: TYGER_def)
  show ?thesis
    using s
    by (simp add: actualSimIndexTableView_def actualSimIndexApplicantView_def
        sameSimTableView_spec sameSimApplicantView_spec spec_same_match_def)
qed

text \<open>
  The reconciler of the similar-trademarks table leaves the class out of the comparison
  that the applicant-filtered view makes: of two matches that differ in class only, it
  takes the second for the first.
\<close>

lemma table_view_reconciler_ignores_class:
  "actualSimIndexTableView [TYGER, TYGER\<lparr>trademark_class := Some ''Class 9''\<rparr>]
     (TYGER\<lparr>trademark_class := Some ''Class 9''\<rparr>) = Some 0 \<and>
   actualSimIndexApplicantView [TYGER, TYGER\<lparr>trademark_class := Some ''Class 9''\<rparr>]
     (TYGER\<lparr>trademark_class := Some ''Class 9''\<rparr>) = Some 1"
proof -
  have s: "spec_scores_agree (similarity_score TYGER) (similarity_score TYGER)"
    using spec_scores_agree_samples(1) by (simp add: TYGER_def)
  show ?thesis
    using s
    by (simp add: actualSimIndexTableView_def actualSimIndexApplicantView_def
        sameSimTableView_spec sameSimApplicantView_spec spec_same_match_def)
       (simp add: TYGER_def)
qed




section \<open>Scores: properties\<close>

text \<open>
  The product with \<open>100\<close> is rounded before \<open>toFixed\<close> reads it: \<open>0.3005\<close> is
  displayed as \<open>30.0%\<close>, its product being the double just below \<open>30.05\<close>.
\<close>

lemma round_double_0_3005:
  "round_double (3005 / 10000) = Finite (676665844012417 / 2251799813685248)"
  unfolding round_double_def binade_def Let_def
  by (simp add: exp_down.simps two_pow_def, simp add: round_half_even_def Let_def)

lemma times100_0_3005:
  "times100 (round_double (3005 / 10000)) = Finite (2114580762538803 / 70368744177664)"
  unfolding round_double_0_3005 times100.simps
  unfolding round_double_def binade_def Let_def
  by (simp add: exp_up.simps two_pow_def, simp add: round_half_even_def Let_def)

lemma formatPercentage_rounds_the_product:
  "formatPercentage toStr (round_double (3005 / 10000)) = ''30.0%''"
  unfolding formatPercentage_def times100_0_3005
  by (simp add: toFixed1_def Let_def show_nat.simps digit_char_def)

lemma toFixed1_samples:
  "toFixed1 toStr (Finite 8500) = ''8500.0''"
  "toFixed1 toStr (Finite 85) = ''85.0''"
  by (simp_all add: toFixed1_def Let_def show_nat.simps digit_char_def)

text \<open>
  C4: every score is normalised into the unit interval before it is compared with a
  threshold or formatted, so that \<open>85\<close> and \<open>0.85\<close> both render as \<open>85.0%\<close>. The
  applicant-filtered view does so. The similar-trademarks table does not: a match whose
  score arrives as \<open>85\<close> passes the threshold filter, and its score cell formats the raw
  value, giving \<open>8500.0%\<close>; a match whose score arrives as \<open>50\<close> gets the badge of a
  score of at least \<open>0.8\<close> there, and the badge of \<open>0.5\<close> in the applicant-filtered view.
\<close>

theorem C4_table_view_formats_raw_score:
  "TYGER\<lparr>similarity_score := Finite 85\<rparr> \<in>
     set (getFilteredSimilarTrademarks [TYGER\<lparr>similarity_score := Finite 85\<rparr>]
       (round_double (3 / 10))) \<and>
   scoreCellTableView toStr (TYGER\<lparr>similarity_score := Finite 85\<rparr>) = ''8500.0%'' \<and>
   scoreCellApplicantView toStr (TYGER\<lparr>similarity_score := Finite 85\<rparr>) = ''85.0%'' \<and>
   scoreCellTableView toStr (TYGER\<lparr>similarity_score := round_double (85 / 100)\<rparr>) = ''85.0%'' \<and>
   scoreCellApplicantView toStr (TYGER\<lparr>similarity_score := round_double (85 / 100)\<rparr>) =
     ''85.0%'' \<and>
   scoreColorTableView (TYGER\<lparr>similarity_score := Finite 50\<rparr>) =
     getScoreColor (round_double (8 / 10)) \<and>
   scoreColorApplicantView (TYGER\<lparr>similarity_score := Finite 50\<rparr>) =
     getScoreColor (round_double (5 / 10)) \<and>
   getScoreColor (round_double (8 / 10)) \<noteq> getScoreColor (round_double (5 / 10))"
proof -
  have n85: "normalizedScore (Finite 85) = round_double (17 / 20)"
    by (simp add: normalizedScore_def)
  have n085: "normalizedScore (round_double (17 / 20)) = round_double (17 / 20)"
    by (simp add: normalizedScore_def round_double_literals)
  have n50: "normalizedScore (Finite 50) = Finite (1 / 2)"
    using div100_50 by (simp add: normalizedScore_def)
  have f: "d_ge (round_double (17 / 20)) (round_double (3 / 10))"
    by (simp add: d_ge_def round_double_literals)
  have cells: "formatPercentage toStr (Finite 85) = ''8500.0%''"
    "formatPercentage toStr (round_double (17 / 20)) = ''85.0%''"
    using times100_85 times100_0_85 by (simp_all add: formatPercentage_def toFixed1_samples)
  have colours: "getScoreColor (Finite 50) = ''bg-red-100 text-red-800 border-red-300''"
    "getScoreColor (round_double (4 / 5)) = ''bg-red-100 text-red-800 border-red-300''"
    "getScoreColor (Finite (1 / 2)) = ''bg-yellow-100 text-yellow-800 border-yellow-300''"
    "getScoreColor (round_double (1 / 2)) = ''bg-yellow-100 text-yellow-800 border-yellow-300''"
    by (simp_all add: getScoreColor_def d_ge_def round_double_literals)
  show ?thesis
    unfolding getFilteredSimilarTrademarks_def scoreCellTableView_def scoreCellApplicantView_def
      scoreColorTableView_def scoreColorApplicantView_def Let_def
    using f by (simp add: n85 n085 n50 cells colours)
qed

section \<open>The selected pairs: properties\<close>

lemma collectSims_elem:
  "t \<in> set (collectSims S e ei si sms) \<Longrightarrow>
   entry t = e \<and> entryIndex t = ei \<and> si \<le> simIndex t \<and> simIndex t < si + length sms \<and>
   sms ! (simIndex t - si) = sim t \<and> set_has S (trademarkId ei (simIndex t))"
proof (induction sms arbitrary: si)
  case Nil
  then show ?case by simp
next
  case (Cons sm sms)
  from Cons.prems consider
    (here) "set_has S (trademarkId ei si)"
      "t = \<lparr>entry = e, sim = sm, entryIndex = ei, simIndex = si\<rparr>"
    | (later) "t \<in> set (collectSims S e ei (Suc si) sms)"
    by (auto split: if_splits)
  then show ?case
  proof cases
    case here
    then show ?thesis by simp
  next
    case later
    from Cons.IH [OF later] show ?thesis
      by (auto simp: Suc_diff_le)
  qed
qed

lemma collectSims_sorted: "sorted_wrt position_less (collectSims S e ei si sms)"
proof (induction sms arbitrary: si)
  case Nil
  show ?case by simp
next
  case (Cons sm sms)
  have "position_less \<lparr>entry = e, sim = sm, entryIndex = ei, simIndex = si\<rparr> t"
    if "t \<in> set (collectSims S e ei (Suc si) sms)" for t
    using collectSims_elem [OF that] by (simp add: position_less_def)
  with Cons.IH [of "Suc si"] show ?case by simp
qed

lemma collectEntries_elem:
  "t \<in> set (collectEntries S ei es) \<Longrightarrow>
   ei \<le> entryIndex t \<and> entryIndex t < ei + length es \<and> es ! (entryIndex t - ei) = entry t \<and>
   simIndex t < length (similarTrademarksOf (entry t)) \<and>
   similarTrademarksOf (entry t) ! simIndex t = sim t \<and>
   set_has S (trademarkId (entryIndex t) (simIndex t))"
proof (induction es arbitrary: ei)
  case Nil
  then show ?case by simp
next
  case (Cons e es)
  from Cons.prems consider
    (here) "t \<in> set (collectSims S e ei 0 (similarTrademarksOf e))"
    | (later) "t \<in> set (collectEntries S (Suc ei) es)"
    by auto
  then show ?case
  proof cases
    case here
    from collectSims_elem [OF here] show ?thesis by simp
  next
    case later
    from Cons.IH [OF later] show ?thesis
      by (auto simp: Suc_diff_le)
  qed
qed

lemma collectEntries_sorted: "sorted_wrt position_less (collectEntries S ei es)"
proof (induction es arbitrary: ei)
  case Nil
  show ?case by simp
next
  case (Cons e es)
  have "position_less a b"
    if a: "a \<in> set (collectSims S e ei 0 (similarTrademarksOf e))"
      and b: "b \<in> set (collectEntries S (Suc ei) es)" for a b
    using collectSims_elem [OF a] collectEntries_elem [OF b] by (simp add: position_less_def)
  with Cons.IH [of "Suc ei"] collectSims_sorted [of S e ei 0 "similarTrademarksOf e"]
  show ?case by (simp add: sorted_wrt_append)
qed

lemma collectSims_cong:
  "set S = set S' \<Longrightarrow> collectSims S e ei si sms = collectSims S' e ei si sms"
  by (induction sms arbitrary: si) (simp_all add: set_has_def)

lemma collectEntries_cong:
  "set S = set S' \<Longrightarrow> collectEntries S ei es = collectEntries S' ei es"
proof (induction es arbitrary: ei)
  case Nil
  show ?case by simp
next
  case (Cons e es)
  from Cons.prems have "collectSims S e ei 0 (similarTrademarksOf e) =
      collectSims S' e ei 0 (similarTrademarksOf e)"
    by (rule collectSims_cong)
  with Cons.IH [OF Cons.prems, of "Suc ei"] show ?case by simp
qed

text \<open>
  C10: the list handed to the template page is strictly ascending by original entry
  position and, within an entry, by original match position; each element carries the
  entry and the match that sit at its two positions in the report, and its key is in the
  active set; and the list depends on the active set by membership only, so the order of
  the toggles that built the set does not show.
\<close>

theorem C10_selected_pairs_in_position_order:
  "sorted_wrt position_less (getSelectedTrademarksData reportData S) \<and>
   (\<forall>t\<in>set (getSelectedTrademarksData reportData S).
      \<exists>rd. reportData = Some rd \<and>
        entryIndex t < length (entriesOf rd) \<and> entriesOf rd ! entryIndex t = entry t \<and>
        simIndex t < length (similarTrademarksOf (entry t)) \<and>
        similarTrademarksOf (entry t) ! simIndex t = sim t \<and>
        set_has S (trademarkId (entryIndex t) (simIndex t))) \<and>
   (set S = set S' \<longrightarrow>
      getSelectedTrademarksData reportData S = getSelectedTrademarksData reportData S')"
proof (cases reportData)
  case None
  then show ?thesis by (simp add: getSelectedTrademarksData_def)
next
  case (Some rd)
  have "sorted_wrt position_less (getSelectedTrademarksData reportData S)"
    by (simp add: Some getSelectedTrademarksData_def collectEntries_sorted)
  moreover have "\<exists>r. reportData = Some r \<and>
        entryIndex t < length (entriesOf r) \<and> entriesOf r ! entryIndex t = entry t \<and>
        simIndex t < length (similarTrademarksOf (entry t)) \<and>
        similarTrademarksOf (entry t) ! simIndex t = sim t \<and>
        set_has S (trademarkId (entryIndex t) (simIndex t))"
    if "t \<in> set (getSelectedTrademarksData reportData S)" for t
  proof -
    from that have "t \<in> set (collectEntries S 0 (entriesOf rd))"
      by (simp add: Some getSelectedTrademarksData_def)
    from collectEntries_elem [OF this] show ?thesis by (simp add: Some)
  qed
  moreover have "getSelectedTrademarksData reportData S = getSelectedTrademarksData reportData S'"
    if "set S = set S'"
    using collectEntries_cong [OF that] by (simp add: Some getSelectedTrademarksData_def)
  ultimately show ?thesis by blast
qed

theorem C10_selected_pairs_in_position_order_witness:
  "set (run_selects [(1, 0, True), (0, 0, True)] []) =
     set (run_selects [(0, 0, True), (1, 0, True)] []) \<and>
   run_selects [(1, 0, True), (0, 0, True)] [] \<noteq> run_selects [(0, 0, True), (1, 0, True)] [] \<and>
   getSelectedTrademarksData (Some sample_report) (run_selects [(1, 0, True), (0, 0, True)] []) =
     getSelectedTrademarksData (Some sample_report) (run_selects [(0, 0, True), (1, 0, True)] []) \<and>
   map (\<lambda>t. (entryIndex t, simIndex t))
     (getSelectedTrademarksData (Some sample_report)
        (run_selects [(1, 0, True), (0, 0, True)] [])) = [(0, 0), (1, 0)] \<and>
   sorted_wrt position_less
     (getSelectedTrademarksData (Some sample_report)
        (run_selects [(1, 0, True), (0, 0, True)] []))"
proof -
  have ids: "trademarkId 0 0 = ''0-0''" "trademarkId (Suc 0) 0 = ''1-0''"
    by (simp_all add: trademarkId_def show_nat.simps digit_char_def)
  have S: "run_selects [(1, 0, True), (0, 0, True)] [] = [''1-0'', ''0-0'']"
    by (simp add: handleTrademarkSelect_def set_add_def Let_def ids)
  have S': "run_selects [(0, 0, True), (1, 0, True)] [] = [''0-0'', ''1-0'']"
    by (simp add: handleTrademarkSelect_def set_add_def Let_def ids)
  have h: "set [''1-0'', ''0-0''] = set [''0-0'', ''1-0'']" by auto
  have pairs: "map (\<lambda>t. (entryIndex t, simIndex t))
     (getSelectedTrademarksData (Some sample_report) [''1-0'', ''0-0'']) = [(0, 0), (1, 0)]"
    by (simp add: getSelectedTrademarksData_def sample_report_def entriesOf_def
        similarTrademarksOf_def TIGER_def set_has_def ids)
  from h C10_selected_pairs_in_position_order [of "Some sample_report"
      "[''1-0'', ''0-0'']" "[''0-0'', ''1-0'']"]
  have sorted: "sorted_wrt position_less
      (getSelectedTrademarksData (Some sample_report) [''1-0'', ''0-0''])"
    and same: "getSelectedTrademarksData (Some sample_report) [''1-0'', ''0-0''] =
      getSelectedTrademarksData (Some sample_report) [''0-0'', ''1-0'']"
    by blast+
  show ?thesis
    unfolding S S' using h pairs sorted same by simp
qed

section \<open>Rendering the rows of a view: properties\<close>

lemma renderTableRow_console:
  "renderTableRow toStr i e S sm c =
     (fst (renderTableRow toStr i e S sm []), c @ snd (renderTableRow toStr i e S sm []))"
  by (simp add: renderTableRow_def Let_def split: option.splits)

lemma renderTableRows_eq:
  "renderTableRows toStr i e S sms c =
     (map (\<lambda>sm. fst (renderTableRow toStr i e S sm [])) sms,
      c @ concat (map (\<lambda>sm. snd (renderTableRow toStr i e S sm [])) sms))"
proof (induction sms arbitrary: c)
  case Nil
  show ?case by simp
next
  case (Cons sm sms)
  show ?case
    by (simp add: Cons.IH renderTableRow_console [of toStr i e S sm c] split: prod.splits)
qed

lemma renderApplicantMatch_console:
  "renderApplicantMatch toStr es i S sm c =
     (fst (renderApplicantMatch toStr es i S sm []),
      c @ snd (renderApplicantMatch toStr es i S sm []))"
  by (simp add: renderApplicantMatch_def Let_def split: option.splits)

lemma renderApplicantMatches_eq:
  "renderApplicantMatches toStr es i S sms c =
     (map (\<lambda>sm. fst (renderApplicantMatch toStr es i S sm [])) sms,
      c @ concat (map (\<lambda>sm. snd (renderApplicantMatch toStr es i S sm [])) sms))"
proof (induction sms arbitrary: c)
  case Nil
  show ?case by simp
next
  case (Cons sm sms)
  show ?case
    by (simp add: Cons.IH renderApplicantMatch_console [of toStr es i S sm c] split: prod.splits)
qed

text \<open>One match rendered alone: a miss and a hit, in either view.\<close>

lemma renderTableRow_miss:
  "tableMiss e sm \<Longrightarrow>
   renderTableRow toStr i e S sm [] =
     (None, [[''Could not find sim index for:'', mark sm, ''in entry:'', show_nat i]])"
  by (simp add: renderTableRow_def tableMiss_def)

lemma renderTableRow_hit:
  "actualSimIndexTableView (similarTrademarksOf e) sm = Some j \<Longrightarrow>
   renderTableRow toStr i e S sm [] =
     (Some \<lparr>row_trademarkId = trademarkId i j, row_isSelected = set_has S (trademarkId i j),
        row_cells = [orText (mark sm) ''N/A'', scoreCellTableView toStr sm,
          optOrText (trademark_class sm) ''N/A'', optOrText (applicant_name sm) ''N/A'',
          optOrText (application_no sm) ''N/A'']\<rparr>, [])"
  by (simp add: renderTableRow_def Let_def)

lemma renderTableRow_log:
  "snd (renderTableRow toStr i e S sm []) =
     (if tableMiss e sm
      then [[''Could not find sim index for:'', mark sm, ''in entry:'', show_nat i]] else [])"
  by (simp add: renderTableRow_def tableMiss_def Let_def split: option.splits)

lemma renderApplicantMatch_miss:
  "applicantMiss es i sm \<Longrightarrow>
   renderApplicantMatch toStr es i S sm [] =
     (None, [[''Could not find sim index for:'', mark sm, ''Applicant:'',
        (case applicant_name sm of None \<Rightarrow> ''undefined'' | Some a \<Rightarrow> a),
        ''in entry:'', show_nat i]])"
  by (simp add: renderApplicantMatch_def applicantMiss_def)

lemma renderApplicantMatch_hit:
  "i < length es \<Longrightarrow>
   actualSimIndexApplicantView (similarTrademarksOf (es ! i)) sm = Some j \<Longrightarrow>
   renderApplicantMatch toStr es i S sm [] =
     (Some \<lparr>row_trademarkId = trademarkId i j, row_isSelected = set_has S (trademarkId i j),
        row_cells = [orText (mark sm) ''Unknown'', optOrText (trademark_class sm) ''N/A'',
          optOrText (application_no sm) ''N/A'', scoreCellApplicantView toStr sm]\<rparr>, [])"
  by (simp add: renderApplicantMatch_def Let_def)

lemma renderApplicantMatch_no_entry:
  "\<not> i < length es \<Longrightarrow> renderApplicantMatch toStr es i S sm [] = (None, [])"
  by (simp add: renderApplicantMatch_def)

lemma renderApplicantMatch_log:
  "snd (renderApplicantMatch toStr es i S sm []) =
     (if applicantMiss es i sm
      then [[''Could not find sim index for:'', mark sm, ''Applicant:'',
        (case applicant_name sm of None \<Rightarrow> ''undefined'' | Some a \<Rightarrow> a),
        ''in entry:'', show_nat i]] else [])"
  by (simp add: renderApplicantMatch_def applicantMiss_def Let_def split: option.splits)

lemma concat_map_singleton_filter:
  "(\<And>x. x \<in> set xs \<Longrightarrow> f x = (if P x then [g x] else [])) \<Longrightarrow>
   concat (map f xs) = map g (filter P xs)"
  by (induction xs) simp_all

text \<open>
  The lists that the page hands to the row renderers. A match of either list sits in the
  original sequence of its entry and has passed the threshold test, so its score is a
  finite number or \<open>Infinity\<close>; reconciliation misses it exactly when the score is
  \<open>Infinity\<close>.
\<close>

lemma set_insertByScore: "set (insertByScore m ms) = insert m (set ms)"
  by (induction ms) auto

lemma set_sortByScore: "set (sortByScore ms) = set ms"
  unfolding sortByScore_def by (induction ms) (simp_all add: set_insertByScore)

lemma matchesOfEntry_subset:
  assumes "sm \<in> set (matchesOfEntry a es i)"
  shows "i < length es \<and> sm \<in> set (similarTrademarksOf (es ! i)) \<and> keptForApplicant a sm"
proof -
  from assms have "(i, sm) \<in> set (getFilteredMatchesByApplicant a es)"
    by (auto simp: matchesOfEntry_def)
  then show ?thesis
    by (auto simp: getFilteredMatchesByApplicant_def set_sortByScore in_set_enumerate_eq)
qed

lemma passed_threshold_score:
  assumes "d_ge (normalizedScore a) (round_double (3 / 10))"
  shows "a \<noteq> NegInf \<and> a \<noteq> NaN"
  using assms d_ge_finite_not_infinite [of a] by (simp add: round_double_0_3)

lemma table_view_miss_iff_infinite:
  assumes "sm \<in> set (getFilteredSimilarTrademarks (similarTrademarksOf e) (round_double (3 / 10)))"
  shows "tableMiss e sm \<longleftrightarrow> similarity_score sm = PosInf"
proof
  assume miss: "tableMiss e sm"
  from assms have mem: "sm \<in> set (similarTrademarksOf e)"
    and "similarity_score sm \<noteq> NegInf"
    using passed_threshold_score [of "similarity_score sm"]
    by (auto simp: getFilteredSimilarTrademarks_def)
  show "similarity_score sm = PosInf"
  proof (rule ccontr)
    assume "similarity_score sm \<noteq> PosInf"
    with \<open>similarity_score sm \<noteq> NegInf\<close> have "sameSimTableView sm sm"
      by (simp add: sameSimTableView_spec spec_scores_agree_refl)
    with mem miss show False
      by (auto simp: tableMiss_def actualSimIndexTableView_def findIndex_None_iff)
  qed
next
  assume "similarity_score sm = PosInf"
  then have "\<not> sameSimTableView sm s" for s
    using spec_scores_agree_infinite(2) [of "similarity_score sm" "similarity_score s"]
    by (simp add: sameSimTableView_spec)
  then show "tableMiss e sm"
    by (simp add: tableMiss_def actualSimIndexTableView_def findIndex_None_iff)
qed

lemma applicant_view_miss_iff_infinite:
  assumes "sm \<in> set (matchesOfEntry a es i)"
  shows "applicantMiss es i sm \<longleftrightarrow> similarity_score sm = PosInf"
proof -
  from matchesOfEntry_subset [OF assms] have i: "i < length es"
    and mem: "sm \<in> set (similarTrademarksOf (es ! i))"
    and kept: "keptForApplicant a sm"
    by simp_all
  from kept have finite: "similarity_score sm \<noteq> NegInf"
    using passed_threshold_score [of "similarity_score sm"]
    by (auto simp: keptForApplicant_def split: option.splits)
  show ?thesis
  proof
    assume miss: "applicantMiss es i sm"
    show "similarity_score sm = PosInf"
    proof (rule ccontr)
      assume "similarity_score sm \<noteq> PosInf"
      with finite have "sameSimApplicantView sm sm"
        by (simp add: sameSimApplicantView_spec spec_same_match_refl)
      with mem miss show False
        by (auto simp: applicantMiss_def actualSimIndexApplicantView_def findIndex_None_iff)
    qed
  next
    assume "similarity_score sm = PosInf"
    then have "\<not> sameSimApplicantView sm s" for s
      using spec_scores_agree_infinite(2) [of "similarity_score sm" "similarity_score s"]
      by (simp add: sameSimApplicantView_spec spec_same_match_def)
    with i show "applicantMiss es i sm"
      by (simp add: applicantMiss_def actualSimIndexApplicantView_def findIndex_None_iff)
  qed
qed

text \<open>
  The entry whose first match has an infinite score: both views list both matches, and
  reconciliation misses the first and finds the second at its index \<open>1\<close>.
\<close>

lemma TYGER_passes_threshold:
  "d_ge (normalizedScore (similarity_score TYGER)) (round_double (3 / 10))"
  "d_ge (normalizedScore PosInf) (round_double (3 / 10))"
  "\<not> d_less (normalizedScore PosInf) (normalizedScore (similarity_score TYGER))"
  by (simp_all add: TYGER_def normalizedScore_def d_ge_def round_double_literals)

lemma infinite_score_sequence:
  "similarTrademarksOf TIGER_with_infinite_score = [TYGER\<lparr>similarity_score := PosInf\<rparr>, TYGER]"
  by (simp add: TIGER_with_infinite_score_def similarTrademarksOf_def TIGER_def)

lemma infinite_score_table_list:
  "getFilteredSimilarTrademarks (similarTrademarksOf TIGER_with_infinite_score)
     (round_double (3 / 10)) = [TYGER\<lparr>similarity_score := PosInf\<rparr>, TYGER]"
  using TYGER_passes_threshold
  by (simp add: infinite_score_sequence getFilteredSimilarTrademarks_def)

lemma infinite_score_applicant_list:
  "matchesOfEntry ''Acme Corp'' [TIGER_with_infinite_score] 0 =
     [TYGER\<lparr>similarity_score := PosInf\<rparr>, TYGER]"
proof -
  have kept: "keptForApplicant ''Acme Corp'' TYGER"
    "keptForApplicant ''Acme Corp'' (TYGER\<lparr>similarity_score := PosInf\<rparr>)"
    using TYGER_passes_threshold by (simp_all add: keptForApplicant_def) (simp_all add: TYGER_def)
  show ?thesis
    using kept TYGER_passes_threshold(3)
    by (simp add: matchesOfEntry_def getFilteredMatchesByApplicant_def enumerate_eq_zip
        infinite_score_sequence sortByScore_def)
qed

lemma infinite_score_reconciled:
  "tableMiss TIGER_with_infinite_score (TYGER\<lparr>similarity_score := PosInf\<rparr>)"
  "applicantMiss [TIGER_with_infinite_score] 0 (TYGER\<lparr>similarity_score := PosInf\<rparr>)"
  "\<not> tableMiss TIGER_with_infinite_score TYGER"
  "\<not> applicantMiss [TIGER_with_infinite_score] 0 TYGER"
  "actualSimIndexTableView (similarTrademarksOf TIGER_with_infinite_score) TYGER = Some 1"
  "actualSimIndexApplicantView (similarTrademarksOf ([TIGER_with_infinite_score] ! 0)) TYGER =
     Some 1"
proof -
  have inf: "\<not> spec_scores_agree a PosInf" "\<not> spec_scores_agree PosInf a" for a
    using spec_scores_agree_infinite [of PosInf a] by simp_all
  have self: "spec_scores_agree (similarity_score TYGER) (similarity_score TYGER)"
    using spec_scores_agree_samples(1) by (simp add: TYGER_def)
  show "tableMiss TIGER_with_infinite_score (TYGER\<lparr>similarity_score := PosInf\<rparr>)"
    "applicantMiss [TIGER_with_infinite_score] 0 (TYGER\<lparr>similarity_score := PosInf\<rparr>)"
    by (simp_all add: tableMiss_def applicantMiss_def infinite_score_sequence
        actualSimIndexTableView_def actualSimIndexApplicantView_def sameSimTableView_spec
        sameSimApplicantView_spec spec_same_match_def inf)
  show t: "actualSimIndexTableView (similarTrademarksOf TIGER_with_infinite_score) TYGER = Some 1"
    using self
    by (simp add: infinite_score_sequence actualSimIndexTableView_def sameSimTableView_spec inf)
  show a: "actualSimIndexApplicantView (similarTrademarksOf ([TIGER_with_infinite_score] ! 0)) TYGER =
      Some 1"
    using self
    by (simp add: infinite_score_sequence actualSimIndexApplicantView_def
        sameSimApplicantView_spec spec_same_match_def inf)
  from t show "\<not> tableMiss TIGER_with_infinite_score TYGER"
    by (simp add: tableMiss_def)
  from a show "\<not> applicantMiss [TIGER_with_infinite_score] 0 TYGER"
    by (simp add: applicantMiss_def)
qed

lemma TYGER_cells:
  "orText (mark TYGER) d = ''TYGER''"
  "optOrText (trademark_class TYGER) d = ''Class 25''"
  "optOrText (applicant_name TYGER) d = ''Acme Corp''"
  "optOrText (application_no TYGER) ''N/A'' = ''N/A''"
  "scoreCellTableView toStr TYGER = ''85.0%''"
  "scoreCellApplicantView toStr TYGER = ''85.0%''"
proof -
  have n: "normalizedScore (round_double (17 / 20)) = round_double (17 / 20)"
    by (simp add: normalizedScore_def round_double_literals)
  have c: "formatPercentage toStr (round_double (17 / 20)) = ''85.0%''"
    using times100_0_85 by (simp add: formatPercentage_def toFixed1_samples)
  show "orText (mark TYGER) d = ''TYGER''"
    "optOrText (trademark_class TYGER) d = ''Class 25''"
    "optOrText (applicant_name TYGER) d = ''Acme Corp''"
    "optOrText (application_no TYGER) ''N/A'' = ''N/A''"
    by (simp_all add: TYGER_def orText_def optOrText_def)
  show "scoreCellTableView toStr TYGER = ''85.0%''"
    "scoreCellApplicantView toStr TYGER = ''85.0%''"
    by (simp_all add: scoreCellTableView_def scoreCellApplicantView_def TYGER_def n c)
qed

lemma list2_eqI: "length xs = 2 \<Longrightarrow> xs ! 0 = a \<Longrightarrow> xs ! 1 = b \<Longrightarrow> xs = [a, b]"
  by (cases xs; cases "tl xs") auto

text \<open>
  C8: rendering a list of matches yields one result per match, in order, each as the
  match would get it alone, whatever the rest of the list holds. A match that
  reconciliation does not find gives \<open>null\<close> and one warning on the console; a match
  that it finds at position \<open>j\<close> gives the row with the checkbox of the key of \<open>j\<close>.
  The console ends with the warnings of exactly the missed matches, in list order. There
  is no failure value: nothing in the row renderers can throw on input of the declared
  types.
\<close>

theorem C8_reconciliation_miss_is_skipped:
  "fst (renderTableRows toStr i e S sms c) =
     map (\<lambda>sm. fst (renderTableRow toStr i e S sm [])) sms \<and>
   (\<forall>k<length sms.
      (tableMiss e (sms ! k) \<longrightarrow> fst (renderTableRows toStr i e S sms c) ! k = None) \<and>
      (\<forall>j. actualSimIndexTableView (similarTrademarksOf e) (sms ! k) = Some j \<longrightarrow>
         fst (renderTableRows toStr i e S sms c) ! k =
           Some \<lparr>row_trademarkId = trademarkId i j,
             row_isSelected = set_has S (trademarkId i j),
             row_cells = [orText (mark (sms ! k)) ''N/A'', scoreCellTableView toStr (sms ! k),
               optOrText (trademark_class (sms ! k)) ''N/A'',
               optOrText (applicant_name (sms ! k)) ''N/A'',
               optOrText (application_no (sms ! k)) ''N/A'']\<rparr>)) \<and>
   snd (renderTableRows toStr i e S sms c) =
     c @ map (\<lambda>sm. [''Could not find sim index for:'', mark sm, ''in entry:'', show_nat i])
           (filter (tableMiss e) sms) \<and>
   fst (renderApplicantMatches toStr es i S sms c) =
     map (\<lambda>sm. fst (renderApplicantMatch toStr es i S sm [])) sms \<and>
   (\<forall>k<length sms.
      (applicantMiss es i (sms ! k) \<or> \<not> i < length es \<longrightarrow>
         fst (renderApplicantMatches toStr es i S sms c) ! k = None) \<and>
      (\<forall>j. i < length es \<and>
           actualSimIndexApplicantView (similarTrademarksOf (es ! i)) (sms ! k) = Some j \<longrightarrow>
         fst (renderApplicantMatches toStr es i S sms c) ! k =
           Some \<lparr>row_trademarkId = trademarkId i j,
             row_isSelected = set_has S (trademarkId i j),
             row_cells = [orText (mark (sms ! k)) ''Unknown'',
               optOrText (trademark_class (sms ! k)) ''N/A'',
               optOrText (application_no (sms ! k)) ''N/A'',
               scoreCellApplicantView toStr (sms ! k)]\<rparr>)) \<and>
   snd (renderApplicantMatches toStr es i S sms c) =
     c @ map (\<lambda>sm. [''Could not find sim index for:'', mark sm, ''Applicant:'',
                (case applicant_name sm of None \<Rightarrow> ''undefined'' | Some a \<Rightarrow> a),
                ''in entry:'', show_nat i])
           (filter (applicantMiss es i) sms)"
proof (intro conjI allI impI)
  show "fst (renderTableRows toStr i e S sms c) =
      map (\<lambda>sm. fst (renderTableRow toStr i e S sm [])) sms"
    by (simp add: renderTableRows_eq)
next
  fix k assume "k < length sms" "tableMiss e (sms ! k)"
  then show "fst (renderTableRows toStr i e S sms c) ! k = None"
    by (simp add: renderTableRows_eq renderTableRow_miss)
next
  fix k j
  assume "k < length sms" "actualSimIndexTableView (similarTrademarksOf e) (sms ! k) = Some j"
  then show "fst (renderTableRows toStr i e S sms c) ! k =
      Some \<lparr>row_trademarkId = trademarkId i j,
        row_isSelected = set_has S (trademarkId i j),
        row_cells = [orText (mark (sms ! k)) ''N/A'', scoreCellTableView toStr (sms ! k),
          optOrText (trademark_class (sms ! k)) ''N/A'',
          optOrText (applicant_name (sms ! k)) ''N/A'',
          optOrText (application_no (sms ! k)) ''N/A'']\<rparr>"
    by (simp add: renderTableRows_eq renderTableRow_hit)
next
  have "concat (map (\<lambda>sm. snd (renderTableRow toStr i e S sm [])) sms) =
      map (\<lambda>sm. [''Could not find sim index for:'', mark sm, ''in entry:'', show_nat i])
        (filter (tableMiss e) sms)"
    by (rule concat_map_singleton_filter) (rule renderTableRow_log)
  then show "snd (renderTableRows toStr i e S sms c) =
      c @ map (\<lambda>sm. [''Could not find sim index for:'', mark sm, ''in entry:'', show_nat i])
            (filter (tableMiss e) sms)"
    by (simp add: renderTableRows_eq)
next
  show "fst (renderApplicantMatches toStr es i S sms c) =
      map (\<lambda>sm. fst (renderApplicantMatch toStr es i S sm [])) sms"
    by (simp add: renderApplicantMatches_eq)
next
  fix k assume "k < length sms" "applicantMiss es i (sms ! k) \<or> \<not> i < length es"
  then show "fst (renderApplicantMatches toStr es i S sms c) ! k = None"
    by (auto simp: renderApplicantMatches_eq renderApplicantMatch_miss
        renderApplicantMatch_no_entry)
next
  fix k j
  assume "k < length sms"
    "i < length es \<and> actualSimIndexApplicantView (similarTrademarksOf (es ! i)) (sms ! k) = Some j"
  then show "fst (renderApplicantMatches toStr es i S sms c) ! k =
      Some \<lparr>row_trademarkId = trademarkId i j,
        row_isSelected = set_has S (trademarkId i j),
        row_cells = [orText (mark (sms ! k)) ''Unknown'',
          optOrText (trademark_class (sms ! k)) ''N/A'',
          optOrText (application_no (sms ! k)) ''N/A'',
          scoreCellApplicantView toStr (sms ! k)]\<rparr>"
    by (simp add: renderApplicantMatches_eq renderApplicantMatch_hit)
next
  have "concat (map (\<lambda>sm. snd (renderApplicantMatch toStr es i S sm [])) sms) =
      map (\<lambda>sm. [''Could not find sim index for:'', mark sm, ''Applicant:'',
             (case applicant_name sm of None \<Rightarrow> ''undefined'' | Some a \<Rightarrow> a),
             ''in entry:'', show_nat i])
        (filter (applicantMiss es i) sms)"
    by (rule concat_map_singleton_filter) (rule renderApplicantMatch_log)
  then show "snd (renderApplicantMatches toStr es i S sms c) =
      c @ map (\<lambda>sm. [''Could not find sim index for:'', mark sm, ''Applicant:'',
                 (case applicant_name sm of None \<Rightarrow> ''undefined'' | Some a \<Rightarrow> a),
                 ''in entry:'', show_nat i])
            (filter (applicantMiss es i) sms)"
    by (simp add: renderApplicantMatches_eq)
qed

theorem C8_reconciliation_miss_is_skipped_witness:
  "getFilteredSimilarTrademarks (similarTrademarksOf TIGER_with_infinite_score)
     (round_double (3 / 10)) = [TYGER\<lparr>similarity_score := PosInf\<rparr>, TYGER] \<and>
   tableViewOfEntry (\<lambda>x. ''1e+21'') [TIGER_with_infinite_score] 0 [''0-1''] [] =
     ([None,
       Some \<lparr>row_trademarkId = ''0-1'', row_isSelected = True,
         row_cells = [''TYGER'', ''85.0%'', ''Class 25'', ''Acme Corp'', ''N/A'']\<rparr>],
      [[''Could not find sim index for:'', ''TYGER'', ''in entry:'', ''0'']]) \<and>
   matchesOfEntry ''Acme Corp'' [TIGER_with_infinite_score] 0 =
     [TYGER\<lparr>similarity_score := PosInf\<rparr>, TYGER] \<and>
   applicantViewOfEntry (\<lambda>x. ''1e+21'') ''Acme Corp'' [TIGER_with_infinite_score] 0 [''0-1''] [] =
     ([None,
       Some \<lparr>row_trademarkId = ''0-1'', row_isSelected = True,
         row_cells = [''TYGER'', ''Class 25'', ''N/A'', ''85.0%'']\<rparr>],
      [[''Could not find sim index for:'', ''TYGER'', ''Applicant:'', ''Acme Corp'', ''in entry:'',
        ''0'']])"
proof -
  let ?e = TIGER_with_infinite_score
  let ?inf = "TYGER\<lparr>similarity_score := PosInf\<rparr>"
  let ?sms = "[?inf, TYGER]"
  let ?toStr = "\<lambda>x::real. ''1e+21''"
  note inst = C8_reconciliation_miss_is_skipped [of ?toStr 0 ?e "[''0-1'']" ?sms "[]" "[?e]"]
  have id: "trademarkId 0 (Suc 0) = ''0-1''" "show_nat 0 = ''0''"
    by (simp_all add: trademarkId_def show_nat.simps digit_char_def)
  have sel: "set_has [''0-1''] ''0-1''"
    by (simp add: set_has_def)
  have k: "(0::nat) < length ?sms" "(1::nat) < length ?sms" "?sms ! 0 = ?inf" "?sms ! 1 = TYGER"
    by simp_all
  from inst have t_len: "length (fst (renderTableRows ?toStr 0 ?e [''0-1''] ?sms [])) = 2"
    by (simp del: renderTableRows.simps)
  from inst have t_rows: "\<forall>k<length ?sms.
      (tableMiss ?e (?sms ! k) \<longrightarrow> fst (renderTableRows ?toStr 0 ?e [''0-1''] ?sms []) ! k = None) \<and>
      (\<forall>j. actualSimIndexTableView (similarTrademarksOf ?e) (?sms ! k) = Some j \<longrightarrow>
         fst (renderTableRows ?toStr 0 ?e [''0-1''] ?sms []) ! k =
           Some \<lparr>row_trademarkId = trademarkId 0 j,
             row_isSelected = set_has [''0-1''] (trademarkId 0 j),
             row_cells = [orText (mark (?sms ! k)) ''N/A'', scoreCellTableView ?toStr (?sms ! k),
               optOrText (trademark_class (?sms ! k)) ''N/A'',
               optOrText (applicant_name (?sms ! k)) ''N/A'',
               optOrText (application_no (?sms ! k)) ''N/A'']\<rparr>)"
    by (elim conjE)
  from t_rows [rule_format, OF k(1), THEN conjunct1] infinite_score_reconciled(1)
  have t0: "fst (renderTableRows ?toStr 0 ?e [''0-1''] ?sms []) ! 0 = None"
    by (simp del: renderTableRows.simps)
  from t_rows [rule_format, OF k(2), THEN conjunct2, rule_format, of 1]
    infinite_score_reconciled(5)
  have t1: "fst (renderTableRows ?toStr 0 ?e [''0-1''] ?sms []) ! 1 =
      Some \<lparr>row_trademarkId = ''0-1'', row_isSelected = True,
        row_cells = [''TYGER'', ''85.0%'', ''Class 25'', ''Acme Corp'', ''N/A'']\<rparr>"
    by (simp add: id sel TYGER_cells del: renderTableRows.simps renderApplicantMatches.simps)
  from inst have "snd (renderTableRows ?toStr 0 ?e [''0-1''] ?sms []) =
      [] @ map (\<lambda>sm. [''Could not find sim index for:'', mark sm, ''in entry:'', show_nat 0])
        (filter (tableMiss ?e) ?sms)"
    by (elim conjE)
  then have t_log: "snd (renderTableRows ?toStr 0 ?e [''0-1''] ?sms []) =
      [[''Could not find sim index for:'', ''TYGER'', ''in entry:'', ''0'']]"
    using infinite_score_reconciled(1,3)
    by (simp add: id del: renderTableRows.simps) (simp add: TYGER_def)
  have table: "tableViewOfEntry ?toStr [?e] 0 [''0-1''] [] =
      ([None,
        Some \<lparr>row_trademarkId = ''0-1'', row_isSelected = True,
          row_cells = [''TYGER'', ''85.0%'', ''Class 25'', ''Acme Corp'', ''N/A'']\<rparr>],
       [[''Could not find sim index for:'', ''TYGER'', ''in entry:'', ''0'']])"
    using list2_eqI [OF t_len t0 t1] t_log
    by (simp add: tableViewOfEntry_def infinite_score_table_list prod_eq_iff
        del: renderTableRows.simps)
  from inst have a_len: "length (fst (renderApplicantMatches ?toStr [?e] 0 [''0-1''] ?sms [])) = 2"
    by (simp del: renderApplicantMatches.simps)
  from inst have a_rows: "\<forall>k<length ?sms.
      (applicantMiss [?e] 0 (?sms ! k) \<or> \<not> 0 < length [?e] \<longrightarrow>
         fst (renderApplicantMatches ?toStr [?e] 0 [''0-1''] ?sms []) ! k = None) \<and>
      (\<forall>j. 0 < length [?e] \<and>
           actualSimIndexApplicantView (similarTrademarksOf ([?e] ! 0)) (?sms ! k) = Some j \<longrightarrow>
         fst (renderApplicantMatches ?toStr [?e] 0 [''0-1''] ?sms []) ! k =
           Some \<lparr>row_trademarkId = trademarkId 0 j,
             row_isSelected = set_has [''0-1''] (trademarkId 0 j),
             row_cells = [orText (mark (?sms ! k)) ''Unknown'',
               optOrText (trademark_class (?sms ! k)) ''N/A'',
               optOrText (application_no (?sms ! k)) ''N/A'',
               scoreCellApplicantView ?toStr (?sms ! k)]\<rparr>)"
    by (elim conjE)
  from a_rows [rule_format, OF k(1), THEN conjunct1] infinite_score_reconciled(2)
  have a0: "fst (renderApplicantMatches ?toStr [?e] 0 [''0-1''] ?sms []) ! 0 = None"
    by (simp del: renderApplicantMatches.simps)
  from a_rows [rule_format, OF k(2), THEN conjunct2, rule_format, of 1]
    infinite_score_reconciled(6)
  have a1: "fst (renderApplicantMatches ?toStr [?e] 0 [''0-1''] ?sms []) ! 1 =
      Some \<lparr>row_trademarkId = ''0-1'', row_isSelected = True,
        row_cells = [''TYGER'', ''Class 25'', ''N/A'', ''85.0%'']\<rparr>"
    by (simp add: id sel TYGER_cells del: renderTableRows.simps renderApplicantMatches.simps)
  from inst have "snd (renderApplicantMatches ?toStr [?e] 0 [''0-1''] ?sms []) =
      [] @ map (\<lambda>sm. [''Could not find sim index for:'', mark sm, ''Applicant:'',
                 (case applicant_name sm of None \<Rightarrow> ''undefined'' | Some a \<Rightarrow> a),
                 ''in entry:'', show_nat 0])
        (filter (applicantMiss [?e] 0) ?sms)"
    by (elim conjE)
  then have a_log: "snd (renderApplicantMatches ?toStr [?e] 0 [''0-1''] ?sms []) =
      [[''Could not find sim index for:'', ''TYGER'', ''Applicant:'', ''Acme Corp'', ''in entry:'',
        ''0'']]"
    using infinite_score_reconciled(2,4)
    by (simp add: id del: renderApplicantMatches.simps) (simp add: TYGER_def)
  have applicant:
    "applicantViewOfEntry ?toStr ''Acme Corp'' [?e] 0 [''0-1''] [] =
      ([None,
        Some \<lparr>row_trademarkId = ''0-1'', row_isSelected = True,
          row_cells = [''TYGER'', ''Class 25'', ''N/A'', ''85.0%'']\<rparr>],
       [[''Could not find sim index for:'', ''TYGER'', ''Applicant:'', ''Acme Corp'', ''in entry:'',
         ''0'']])"
    using list2_eqI [OF a_len a0 a1] a_log
    by (simp add: applicantViewOfEntry_def infinite_score_applicant_list prod_eq_iff
        del: renderApplicantMatches.simps)
  from infinite_score_table_list table infinite_score_applicant_list applicant
  show ?thesis by (intro conjI)
qed

section \<open>Applicant aggregator: properties\<close>

lemma map_of_map_set: "map_of (map_set m k v) = (map_of m)(k \<mapsto> v)"
  by (induction m) (auto simp: fun_eq_iff)

lemma map_set_twice: "map_of m k = None \<Longrightarrow> map_set (map_set m k v) k v' = map_set m k v'"
  by (induction m) (auto split: if_splits)

lemma fst_set_map_set: "fst ` set (map_set m k v) = insert k (fst ` set m)"
  by (induction m) force+

lemma distinct_map_set: "distinct (map fst m) \<Longrightarrow> distinct (map fst (map_set m k v))"
proof (induction m)
  case Nil
  show ?case by simp
next
  case (Cons p m)
  obtain k' v' where p: "p = (k', v')" by (cases p)
  show ?case
  proof (cases "k' = k")
    case True
    with Cons.prems p show ?thesis by simp
  next
    case False
    from Cons.prems p have "k' \<notin> fst ` set m" and "distinct (map fst m)" by simp_all
    with False Cons.IH show ?thesis
      by (simp add: p fst_set_map_set)
  qed
qed

lemma sum_list_map_set:
  fixes f :: "'k \<times> 'v \<Rightarrow> nat"
  shows "sum_list (map f (map_set m k v)) + (case map_of m k of None \<Rightarrow> 0 | Some v' \<Rightarrow> f (k, v')) =
     sum_list (map f m) + f (k, v)"
  by (induction m) auto

lemma foldl_plus_sum_list:
  fixes f :: "'a \<Rightarrow> nat"
  shows "foldl (\<lambda>s x. s + f x) a xs = a + sum_list (map f xs)"
  by (induction xs arbitrary: a) simp_all

text \<open>The step of the loop, with the two guarded insertions folded into the lookups.\<close>

lemma groupStep_compact:
  "groupStep G t =
     map_set G (applicantNameOf (sim t))
       (map_set (case map_of G (applicantNameOf (sim t)) of None \<Rightarrow> [] | Some m \<Rightarrow> m)
          (entryIndex t)
          (case map_of (case map_of G (applicantNameOf (sim t)) of None \<Rightarrow> [] | Some m \<Rightarrow> m)
                  (entryIndex t) of
             None \<Rightarrow> (entry t, [sim t])
           | Some (e, sims) \<Rightarrow> (e, sims @ [sim t])))"
proof (cases "map_of G (applicantNameOf (sim t))")
  case None
  then show ?thesis
    by (simp add: groupStep_def Let_def map_of_map_set map_set_twice)
next
  case (Some m)
  then show ?thesis
    by (cases "map_of m (entryIndex t)")
      (auto simp: groupStep_def Let_def map_of_map_set map_set_twice)
qed

lemma sims_at_groupStep:
  "sims_at (groupStep G t) n i =
     sims_at G n i @ (if applicantNameOf (sim t) = n \<and> entryIndex t = i then [sim t] else [])"
  by (auto simp: groupStep_compact sims_at_def map_of_map_set split: option.splits)

lemma sims_at_foldl:
  "sims_at (foldl groupStep G sel) n i =
     sims_at G n i @ map sim (filter (\<lambda>t. applicantNameOf (sim t) = n \<and> entryIndex t = i) sel)"
  by (induction sel arbitrary: G) (simp_all add: sims_at_groupStep)

lemma sims_at_grouped_of:
  "sims_at (grouped_of sel) n i =
     map sim (filter (\<lambda>t. applicantNameOf (sim t) = n \<and> entryIndex t = i) sel)"
proof -
  have "sims_at [] n i = []" by (simp add: sims_at_def)
  then show ?thesis by (simp add: grouped_of_def sims_at_foldl)
qed

lemma distinct_groupStep: "distinct (map fst G) \<Longrightarrow> distinct (map fst (groupStep G t))"
  by (simp only: groupStep_compact distinct_map_set)

lemma distinct_grouped_of: "distinct (map fst (grouped_of sel))"
proof -
  have "distinct (map fst G) \<Longrightarrow> distinct (map fst (foldl groupStep G sel))" for G
    by (induction sel arbitrary: G) (simp_all add: distinct_groupStep)
  from this [of "[]"] show ?thesis by (simp add: grouped_of_def)
qed

lemma count_groupStep: "count_grouped (groupStep G t) = Suc (count_grouped G)"
proof -
  define n where "n = applicantNameOf (sim t)"
  define es where "es = (case map_of G n of None \<Rightarrow> [] | Some m \<Rightarrow> m)"
  define v where "v = (case map_of es (entryIndex t) of
           None \<Rightarrow> (entry t, [sim t]) | Some (e, sims) \<Rightarrow> (e, sims @ [sim t]))"
  define inner :: "applicant_entries \<Rightarrow> nat"
    where "inner = (\<lambda>es. sum_list (map (\<lambda>en. length (snd (snd en))) es))"
  have step: "groupStep G t = map_set G n (map_set es (entryIndex t) v)"
    by (simp add: groupStep_compact n_def es_def v_def)
  have "inner (map_set es (entryIndex t) v) +
      (case map_of es (entryIndex t) of None \<Rightarrow> 0 | Some v' \<Rightarrow> length (snd v')) =
      inner es + length (snd v)"
    unfolding inner_def
    using sum_list_map_set [of "\<lambda>en. length (snd (snd en))" es "entryIndex t" v]
    by (auto split: option.splits)
  then have inner_step: "inner (map_set es (entryIndex t) v) = Suc (inner es)"
    by (cases "map_of es (entryIndex t)") (auto simp: v_def)
  have "count_grouped (groupStep G t) +
      (case map_of G n of None \<Rightarrow> 0 | Some m \<Rightarrow> inner m) =
      count_grouped G + inner (map_set es (entryIndex t) v)"
    unfolding count_grouped_def step inner_def
    using sum_list_map_set [of "\<lambda>(n, es). sum_list (map (\<lambda>en. length (snd (snd en))) es)"
        G n "map_set es (entryIndex t) v"]
    by (auto split: option.splits)
  moreover have "(case map_of G n of None \<Rightarrow> 0 | Some m \<Rightarrow> inner m) = inner es"
    by (cases "map_of G n") (simp_all add: es_def inner_def)
  ultimately show ?thesis using inner_step by simp
qed

lemma count_grouped_of: "count_grouped (grouped_of sel) = length sel"
proof -
  have "count_grouped (foldl groupStep G sel) = count_grouped G + length sel" for G
    by (induction sel arbitrary: G) (simp_all add: count_groupStep)
  from this [of "[]"] show ?thesis by (simp add: grouped_of_def count_grouped_def)
qed

lemma totalTrademarksInGroups_count:
  "totalTrademarksInGroups (applicantGroupsOf sel) = count_grouped (grouped_of sel)"
proof -
  have "totalTrademarksInGroups (map (\<lambda>(name, es).
      \<lparr>applicantName = name, email = None, loading = True, group_entries = es\<rparr>) G) =
      count_grouped G" for G
    by (simp add: totalTrademarksInGroups_def count_grouped_def foldl_plus_sum_list
        comp_def case_prod_unfold)
  then show ?thesis by (simp add: applicantGroupsOf_def)
qed

lemma map_of_distinct_mem: "distinct (map fst m) \<Longrightarrow> (k, v) \<in> set m \<Longrightarrow> map_of m k = Some v"
  by simp

text \<open>
  A group, read back from the association list: it lists the match of \<open>t\<close> under the
  entry index of \<open>t\<close> exactly when a selected pair with that entry index, that match and
  the group's name as key exists.
\<close>

lemma group_has_iff:
  assumes "(n, es) \<in> set (grouped_of sel)"
  shows "group_has \<lparr>applicantName = n, email = None, loading = True, group_entries = es\<rparr> t \<longleftrightarrow>
     (\<exists>t'\<in>set sel. applicantNameOf (sim t') = n \<and> entryIndex t' = entryIndex t \<and> sim t' = sim t)"
proof -
  from assms distinct_grouped_of [of sel] have "map_of (grouped_of sel) n = Some es"
    by simp
  then have "group_has \<lparr>applicantName = n, email = None, loading = True, group_entries = es\<rparr> t \<longleftrightarrow>
      sim t \<in> set (sims_at (grouped_of sel) n (entryIndex t))"
    by (auto simp: group_has_def sims_at_def split: option.splits)
  also have "\<dots> \<longleftrightarrow>
      (\<exists>t'\<in>set sel. applicantNameOf (sim t') = n \<and> entryIndex t' = entryIndex t \<and> sim t' = sim t)"
    unfolding sims_at_grouped_of by (simp add: image_iff Bex_def) metis
  finally show ?thesis .
qed

lemma group_exists:
  assumes "t \<in> set sel"
  shows "\<exists>es. (applicantNameOf (sim t), es) \<in> set (grouped_of sel)"
proof -
  from assms have "sim t \<in> set (sims_at (grouped_of sel) (applicantNameOf (sim t)) (entryIndex t))"
    by (simp add: sims_at_grouped_of)
  then have "map_of (grouped_of sel) (applicantNameOf (sim t)) \<noteq> None"
    by (cases "map_of (grouped_of sel) (applicantNameOf (sim t))") (simp_all add: sims_at_def)
  then show ?thesis by (auto dest: map_of_SomeD)
qed

lemma filter_single_key:
  "distinct (map fst m) \<Longrightarrow> (k, v) \<in> set m \<Longrightarrow> (\<And>k' v'. (k', v') \<in> set m \<Longrightarrow> P (k', v') = (k' = k)) \<Longrightarrow>
   filter P m = [(k, v)]"
proof (induction m)
  case Nil
  then show ?case by simp
next
  case (Cons p m)
  obtain k' v' where p: "p = (k', v')" by (cases p)
  show ?case
  proof (cases "k' = k")
    case True
    with Cons.prems(1) p have notin: "k \<notin> fst ` set m" by simp
    with Cons.prems(2) True p have v: "v' = v" by (auto simp: image_iff)
    have "filter P m = []"
    proof -
      have "\<not> P q" if "q \<in> set m" for q
      proof -
        obtain a b where q: "q = (a, b)" by (cases q)
        with that notin have "a \<noteq> k" by (auto simp: image_iff)
        moreover from that q have "P (a, b) = (a = k)" by (intro Cons.prems(3)) simp
        ultimately show ?thesis by (simp add: q)
      qed
      then show ?thesis by (simp add: filter_empty_conv)
    qed
    moreover have "P (k', v')" using Cons.prems(3) [of k' v'] True p by simp
    ultimately show ?thesis using True v p by simp
  next
    case False
    with Cons.prems(2) p have mem: "(k, v) \<in> set m" by auto
    from Cons.prems(1) have d: "distinct (map fst m)" by simp
    have "filter P m = [(k, v)]"
      by (rule Cons.IH [OF d mem]) (simp add: Cons.prems(3))
    moreover have "\<not> P (k', v')" using Cons.prems(3) [of k' v'] False p by simp
    ultimately show ?thesis by (simp add: p)
  qed
qed

lemma groups_holding:
  assumes "t \<in> set sel"
  shows "\<exists>es. filter (\<lambda>g. group_has g t) (applicantGroupsOf sel) =
     [\<lparr>applicantName = applicantNameOf (sim t), email = None, loading = True, group_entries = es\<rparr>]"
proof -
  from group_exists [OF assms] obtain es
    where es: "(applicantNameOf (sim t), es) \<in> set (grouped_of sel)" ..
  let ?mk = "\<lambda>(name, es). \<lparr>applicantName = name, email = None, loading = True, group_entries = es\<rparr>"
  have "filter ((\<lambda>g. group_has g t) \<circ> ?mk) (grouped_of sel) = [(applicantNameOf (sim t), es)]"
  proof (rule filter_single_key [OF distinct_grouped_of es])
    fix k' v' assume mem: "(k', v') \<in> set (grouped_of sel)"
    show "((\<lambda>g. group_has g t) \<circ> ?mk) (k', v') = (k' = applicantNameOf (sim t))"
      using group_has_iff [OF mem, of t] assms by auto
  qed
  then have "filter (\<lambda>g. group_has g t) (applicantGroupsOf sel) =
      map ?mk [(applicantNameOf (sim t), es)]"
    by (simp add: applicantGroupsOf_def filter_map)
  then show ?thesis by auto
qed

subsection \<open>Keys are injective\<close>

lemma digit_char_mem: "digit_char n \<in> set ''0123456789''"
  unfolding digit_char_def by (rule nth_mem) simp

lemma digit_char_inj: "digit_char a = digit_char b \<Longrightarrow> a mod 10 = b mod 10"
proof -
  assume "digit_char a = digit_char b"
  moreover have "distinct ''0123456789''" by simp
  moreover have "a mod 10 < length ''0123456789''" "b mod 10 < length ''0123456789''" by simp_all
  ultimately show ?thesis
    unfolding digit_char_def by (simp only: nth_eq_iff_index_eq)
qed

lemma show_nat_digits: "set (show_nat n) \<subseteq> set ''0123456789''"
proof (induction n rule: show_nat.induct)
  case (1 n)
  show ?case
  proof (cases "n < 10")
    case True
    then show ?thesis using digit_char_mem [of n] by (simp add: show_nat.simps [of n])
  next
    case False
    with 1 digit_char_mem [of n] show ?thesis
      by (simp add: show_nat.simps [of n])
  qed
qed

lemma show_nat_no_dash: "CHR ''-'' \<notin> set (show_nat n)"
  using show_nat_digits [of n] by auto

lemma show_nat_nonempty: "show_nat n \<noteq> []"
  by (subst show_nat.simps) simp

lemma show_nat_inj: "show_nat a = show_nat b \<Longrightarrow> a = b"
proof (induction a arbitrary: b rule: show_nat.induct)
  case (1 a)
  show ?case
  proof (cases "a < 10")
    case a: True
    show ?thesis
    proof (cases "b < 10")
      case True
      with a "1.prems" have "digit_char a = digit_char b"
        by (simp add: show_nat.simps [of a] show_nat.simps [of b])
      from digit_char_inj [OF this] a True show ?thesis by simp
    next
      case False
      with a "1.prems" show_nat_nonempty [of "b div 10"] show ?thesis
        by (simp add: show_nat.simps [of a] show_nat.simps [of b])
    qed
  next
    case a: False
    show ?thesis
    proof (cases "b < 10")
      case True
      with a "1.prems" show_nat_nonempty [of "a div 10"] show ?thesis
        by (simp add: show_nat.simps [of a] show_nat.simps [of b])
    next
      case False
      with a "1.prems" have "show_nat (a div 10) = show_nat (b div 10)"
        and d: "digit_char a = digit_char b"
        by (simp_all add: show_nat.simps [of a] show_nat.simps [of b])
      with a "1.IH" have "a div 10 = b div 10" by simp
      moreover from digit_char_inj [OF d] have "a mod 10 = b mod 10" .
      ultimately show ?thesis by (metis div_mult_mod_eq)
    qed
  qed
qed

lemma append_sep_eq:
  assumes "x \<notin> set xs" and "x \<notin> set xs'" and "xs @ x # ys = xs' @ x # ys'"
  shows "xs = xs' \<and> ys = ys'"
proof -
  have "takeWhile (\<lambda>c. c \<noteq> x) (xs @ x # ys) = xs"
    using assms(1) by (auto simp: takeWhile_tail)
  moreover have "takeWhile (\<lambda>c. c \<noteq> x) (xs' @ x # ys') = xs'"
    using assms(2) by (auto simp: takeWhile_tail)
  ultimately have "xs = xs'" using assms(3) by simp
  with assms(3) show ?thesis by simp
qed

lemma trademarkId_inj: "trademarkId e s = trademarkId e' s' \<longleftrightarrow> e = e' \<and> s = s'"
proof
  assume "trademarkId e s = trademarkId e' s'"
  then have "show_nat e @ CHR ''-'' # show_nat s = show_nat e' @ CHR ''-'' # show_nat s'"
    by (simp add: trademarkId_def)
  with show_nat_no_dash [of e] show_nat_no_dash [of e']
  have "show_nat e = show_nat e' \<and> show_nat s = show_nat s'"
    by (rule append_sep_eq)
  then show "e = e' \<and> s = s'" by (simp add: show_nat_inj)
qed simp

subsection \<open>Every valid key of the active set is collected once\<close>

lemma collectSims_complete:
  "si \<le> j \<Longrightarrow> j < si + length sms \<Longrightarrow> set_has S (trademarkId ei j) \<Longrightarrow>
   \<exists>t\<in>set (collectSims S e ei si sms). entryIndex t = ei \<and> simIndex t = j"
proof (induction sms arbitrary: si)
  case Nil
  then show ?case by simp
next
  case (Cons sm sms)
  show ?case
  proof (cases "j = si")
    case True
    with Cons.prems show ?thesis by simp
  next
    case False
    with Cons.prems have "Suc si \<le> j" "j < Suc si + length sms" by simp_all
    from Cons.IH [OF this Cons.prems(3)] show ?thesis by auto
  qed
qed

lemma collectEntries_complete:
  "ei \<le> i \<Longrightarrow> i < ei + length es \<Longrightarrow> j < length (similarTrademarksOf (es ! (i - ei))) \<Longrightarrow>
   set_has S (trademarkId i j) \<Longrightarrow>
   \<exists>t\<in>set (collectEntries S ei es). entryIndex t = i \<and> simIndex t = j"
proof (induction es arbitrary: ei)
  case Nil
  then show ?case by simp
next
  case (Cons e es)
  show ?case
  proof (cases "i = ei")
    case True
    with Cons.prems collectSims_complete [of 0 j "similarTrademarksOf e" S ei e]
    show ?thesis by auto
  next
    case False
    with Cons.prems have a: "Suc ei \<le> i" "i < Suc ei + length es" by simp_all
    from False Cons.prems have "j < length (similarTrademarksOf (es ! (i - Suc ei)))"
      by (simp add: nth_Cons' Suc_diff_le)
    from Cons.IH [OF a this Cons.prems(4)] show ?thesis by auto
  qed
qed

lemma distinct_keys_of_sorted:
  "sorted_wrt position_less L \<Longrightarrow> distinct (map keyOf L)"
proof (induction L)
  case Nil
  show ?case by simp
next
  case (Cons t L)
  have "keyOf t \<noteq> keyOf u" if "u \<in> set L" for u
  proof -
    from Cons.prems that have "position_less t u" by simp
    then show ?thesis by (auto simp: keyOf_def trademarkId_inj position_less_def)
  qed
  with Cons show ?case by auto
qed

lemma collected_keys:
  assumes "distinct S" and "valid_keys rd S"
  shows "set (map keyOf (getSelectedTrademarksData (Some rd) S)) = set S"
    and "length (getSelectedTrademarksData (Some rd) S) = length S"
proof -
  let ?L = "collectEntries S 0 (entriesOf rd)"
  have L: "getSelectedTrademarksData (Some rd) S = ?L"
    by (simp add: getSelectedTrademarksData_def)
  have sub: "keyOf t \<in> set S" if "t \<in> set ?L" for t
    using collectEntries_elem [OF that] by (simp add: keyOf_def set_has_def)
  have sup: "k \<in> keyOf ` set ?L" if "k \<in> set S" for k
  proof -
    from that assms(2) obtain ei si
      where "ei < length (entriesOf rd)" "si < length (similarTrademarksOf (entriesOf rd ! ei))"
        "k = trademarkId ei si"
      unfolding valid_keys_def by blast
    with that collectEntries_complete [of 0 ei "entriesOf rd" si S]
    obtain t where "t \<in> set ?L" "entryIndex t = ei" "simIndex t = si"
      by (auto simp: set_has_def)
    with \<open>k = trademarkId ei si\<close> show ?thesis by (auto simp: keyOf_def)
  qed
  from sub sup show keys: "set (map keyOf (getSelectedTrademarksData (Some rd) S)) = set S"
    unfolding L by auto
  have "distinct (map keyOf ?L)"
    by (rule distinct_keys_of_sorted) (rule collectEntries_sorted)
  then have "length ?L = card (set (map keyOf ?L))"
    by (metis distinct_card length_map)
  also have "\<dots> = card (set S)" using keys unfolding L by simp
  also have "\<dots> = length S" using assms(1) by (rule distinct_card)
  finally show "length (getSelectedTrademarksData (Some rd) S) = length S"
    unfolding L .
qed

lemma distinct_run_selects: "distinct S \<Longrightarrow> distinct (run_selects ops S)"
proof (induction ops arbitrary: S)
  case Nil
  then show ?case by simp
next
  case (Cons op ops)
  obtain e s c where op: "op = (e, s, c)" by (cases op)
  from Cons.prems have "distinct (handleTrademarkSelect e s c S)"
    by (simp add: handleTrademarkSelect_def set_add_def set_delete_def Let_def)
  from Cons.IH [OF this] show ?case by (simp add: op)
qed

subsection \<open>The grouping key\<close>

lemma trim_all_white: "(\<forall>c\<in>set n. isWhiteSpace c) \<Longrightarrow> trim n = []"
proof -
  assume "\<forall>c\<in>set n. isWhiteSpace c"
  then have d: "dropWhile isWhiteSpace n = []" by simp
  show ?thesis unfolding trim_def d by simp
qed

lemma rev_dropWhile_split:
  "d = rev (dropWhile P (rev d)) @ rev (takeWhile P (rev d))"
  by (metis takeWhile_dropWhile_id rev_append rev_rev_ident)

lemma trim_decomp:
  "n = takeWhile isWhiteSpace n @ trim n @ rev (takeWhile isWhiteSpace (rev (dropWhile isWhiteSpace n)))"
proof -
  let ?d = "dropWhile isWhiteSpace n"
  have "?d = trim n @ rev (takeWhile isWhiteSpace (rev ?d))"
    unfolding trim_def by (rule rev_dropWhile_split)
  moreover have "n = takeWhile isWhiteSpace n @ ?d" by simp
  ultimately show ?thesis by metis
qed

lemma trim_ends:
  assumes "\<not> (\<forall>c\<in>set n. isWhiteSpace c)"
  shows "trim n \<noteq> []" and "\<not> isWhiteSpace (hd (trim n))" and "\<not> isWhiteSpace (last (trim n))"
proof -
  let ?d = "dropWhile isWhiteSpace n"
  let ?r = "dropWhile isWhiteSpace (rev ?d)"
  from assms have d: "?d \<noteq> []" by (simp add: dropWhile_eq_Nil_conv)
  then have hd_d: "\<not> isWhiteSpace (hd ?d)" by (rule hd_dropWhile)
  from d hd_d have "\<not> (\<forall>c\<in>set (rev ?d). isWhiteSpace c)"
    by (metis hd_in_set set_rev)
  then have r: "?r \<noteq> []" by (simp add: dropWhile_eq_Nil_conv)
  then show ne: "trim n \<noteq> []" by (simp add: trim_def)
  from r have "\<not> isWhiteSpace (hd ?r)" by (rule hd_dropWhile)
  with r show "\<not> isWhiteSpace (last (trim n))" by (simp add: trim_def last_rev)
  have "?d = trim n @ rev (takeWhile isWhiteSpace (rev ?d))"
    unfolding trim_def by (rule rev_dropWhile_split)
  with ne have "hd ?d = hd (trim n)" by (metis hd_append2)
  with hd_d show "\<not> isWhiteSpace (hd (trim n))" by simp
qed

lemma group_name_of_holder:
  assumes "g \<in> set (applicantGroupsOf sel)" and "group_has g t"
  shows "\<exists>t'\<in>set sel. applicantNameOf (sim t') = applicantName g \<and>
     entryIndex t' = entryIndex t \<and> sim t' = sim t"
proof -
  from assms(1) obtain n es where mem: "(n, es) \<in> set (grouped_of sel)"
    and g: "g = \<lparr>applicantName = n, email = None, loading = True, group_entries = es\<rparr>"
    by (auto simp: applicantGroupsOf_def)
  from assms(2) group_has_iff [OF mem, of t] show ?thesis by (simp add: g)
qed

lemma same_key_same_group:
  assumes "t1 \<in> set sel" and "t2 \<in> set sel"
    and "applicantNameOf (sim t1) = applicantNameOf (sim t2)"
  shows "\<exists>g\<in>set (applicantGroupsOf sel). group_has g t1 \<and> group_has g t2"
proof -
  from group_exists [OF assms(1)] obtain es
    where mem: "(applicantNameOf (sim t1), es) \<in> set (grouped_of sel)" ..
  let ?g = "\<lparr>applicantName = applicantNameOf (sim t1), email = None, loading = True,
    group_entries = es\<rparr>"
  from mem have "?g \<in> set (applicantGroupsOf sel)"
    by (force simp: applicantGroupsOf_def)
  moreover have "group_has ?g t1" using group_has_iff [OF mem, of t1] assms(1) by auto
  moreover have "group_has ?g t2" using group_has_iff [OF mem, of t2] assms(2,3) by auto
  ultimately show ?thesis by blast
qed

text \<open>
  C2: the groups built at template-generation time hold as many matches as there are
  selected pairs, so the mismatch warning is never written, and every selected pair is
  listed by exactly one group. When the active set holds keys of positions of the report
  only, the pairs handed over are as many as the keys of the set, one for each key, so the
  sum over the groups is the size of the active set.
\<close>

theorem C2_selection_partitioned_into_groups:
  "totalTrademarksInGroups (applicantGroupsOf sel) = length sel \<and>
   (\<forall>t\<in>set sel. length (filter (\<lambda>g. group_has g t) (applicantGroupsOf sel)) = 1) \<and>
   (sel \<noteq> [] \<longrightarrow> groupingEffect sel (Some rd) = Some (applicantGroupsOf sel, False)) \<and>
   (distinct S \<and> valid_keys rd S \<longrightarrow>
      set (map keyOf (getSelectedTrademarksData (Some rd) S)) = set S \<and>
      totalTrademarksInGroups (applicantGroupsOf (getSelectedTrademarksData (Some rd) S)) =
        length S)"
proof (intro conjI ballI impI)
  show total: "totalTrademarksInGroups (applicantGroupsOf sel) = length sel" for sel
    by (simp add: totalTrademarksInGroups_count count_grouped_of)
  show "length (filter (\<lambda>g. group_has g t) (applicantGroupsOf sel)) = 1" if "t \<in> set sel" for t
    using groups_holding [OF that] by auto
  show "groupingEffect sel (Some rd) = Some (applicantGroupsOf sel, False)" if "sel \<noteq> []"
    using that by (simp add: groupingEffect_def Let_def total)
  show "set (map keyOf (getSelectedTrademarksData (Some rd) S)) = set S"
    if "distinct S \<and> valid_keys rd S"
    using that collected_keys(1) by blast
  show "totalTrademarksInGroups (applicantGroupsOf (getSelectedTrademarksData (Some rd) S)) =
      length S" if "distinct S \<and> valid_keys rd S"
    using that collected_keys(2) [of S rd] by (simp add: total)
qed

text \<open>
  C6: the grouping key of a match is \<open>Unknown\<close> when the applicant name is missing or
  consists of white space only; otherwise it is the name without its leading and trailing
  white space, a non-empty string that starts and ends with a character that is not white
  space. Groups are told apart by equality of these keys and by nothing else: a group
  that lists a selected pair has the pair's key as its name, and two selected pairs are
  listed by a common group exactly when their keys are equal strings.
\<close>

theorem C6_grouping_key_trimmed_or_unknown:
  "(applicant_name sm = None \<longrightarrow> applicantNameOf sm = ''Unknown'') \<and>
   (\<forall>n. applicant_name sm = Some n \<longrightarrow>
      (if \<forall>c\<in>set n. isWhiteSpace c then applicantNameOf sm = ''Unknown''
       else applicantNameOf sm = trim n \<and> trim n \<noteq> [] \<and>
            \<not> isWhiteSpace (hd (trim n)) \<and> \<not> isWhiteSpace (last (trim n)) \<and>
            (\<exists>ws1 ws2. n = ws1 @ trim n @ ws2 \<and>
               (\<forall>c\<in>set ws1. isWhiteSpace c) \<and> (\<forall>c\<in>set ws2. isWhiteSpace c)))) \<and>
   (\<forall>t\<in>set sel. \<forall>g\<in>set (applicantGroupsOf sel).
      group_has g t \<longrightarrow> applicantName g = applicantNameOf (sim t)) \<and>
   (\<forall>t1\<in>set sel. \<forall>t2\<in>set sel.
      (\<exists>g\<in>set (applicantGroupsOf sel). group_has g t1 \<and> group_has g t2) \<longleftrightarrow>
      applicantNameOf (sim t1) = applicantNameOf (sim t2))"
proof (intro conjI allI ballI impI)
  assume "applicant_name sm = None"
  then show "applicantNameOf sm = ''Unknown''" by (simp add: applicantNameOf_def)
next
  fix n assume n: "applicant_name sm = Some n"
  show "if \<forall>c\<in>set n. isWhiteSpace c then applicantNameOf sm = ''Unknown''
       else applicantNameOf sm = trim n \<and> trim n \<noteq> [] \<and>
            \<not> isWhiteSpace (hd (trim n)) \<and> \<not> isWhiteSpace (last (trim n)) \<and>
            (\<exists>ws1 ws2. n = ws1 @ trim n @ ws2 \<and>
               (\<forall>c\<in>set ws1. isWhiteSpace c) \<and> (\<forall>c\<in>set ws2. isWhiteSpace c))"
  proof (cases "\<forall>c\<in>set n. isWhiteSpace c")
    case True
    with n trim_all_white [of n] show ?thesis by (simp add: applicantNameOf_def)
  next
    case False
    note ends = trim_ends [OF False]
    have "\<exists>ws1 ws2. n = ws1 @ trim n @ ws2 \<and>
        (\<forall>c\<in>set ws1. isWhiteSpace c) \<and> (\<forall>c\<in>set ws2. isWhiteSpace c)"
    proof (intro exI conjI)
      show "n = takeWhile isWhiteSpace n @ trim n @
          rev (takeWhile isWhiteSpace (rev (dropWhile isWhiteSpace n)))"
        by (rule trim_decomp)
      show "\<forall>c\<in>set (takeWhile isWhiteSpace n). isWhiteSpace c"
        by (auto dest: set_takeWhileD)
      show "\<forall>c\<in>set (rev (takeWhile isWhiteSpace (rev (dropWhile isWhiteSpace n)))). isWhiteSpace c"
        by (auto dest: set_takeWhileD)
    qed
    moreover from n ends(1) have "applicantNameOf sm = trim n"
      by (simp add: applicantNameOf_def)
    ultimately show ?thesis
      unfolding if_not_P [OF False] using ends by blast
  qed
next
  fix t g assume "t \<in> set sel" "g \<in> set (applicantGroupsOf sel)" "group_has g t"
  from group_name_of_holder [OF this(2,3)] show "applicantName g = applicantNameOf (sim t)"
    by auto
next
  fix t1 t2 assume t: "t1 \<in> set sel" "t2 \<in> set sel"
  show "(\<exists>g\<in>set (applicantGroupsOf sel). group_has g t1 \<and> group_has g t2) \<longleftrightarrow>
      applicantNameOf (sim t1) = applicantNameOf (sim t2)"
  proof
    assume "\<exists>g\<in>set (applicantGroupsOf sel). group_has g t1 \<and> group_has g t2"
    then obtain g where g: "g \<in> set (applicantGroupsOf sel)" "group_has g t1" "group_has g t2"
      by blast
    from group_name_of_holder [OF g(1,2)] group_name_of_holder [OF g(1,3)]
    show "applicantNameOf (sim t1) = applicantNameOf (sim t2)" by auto
  next
    assume "applicantNameOf (sim t1) = applicantNameOf (sim t2)"
    with t show "\<exists>g\<in>set (applicantGroupsOf sel). group_has g t1 \<and> group_has g t2"
      by (rule same_key_same_group)
  qed
qed

theorem C2_selection_partitioned_into_groups_witness:
  "distinct [''1-0'', ''0-0''] \<and> valid_keys sample_report [''1-0'', ''0-0''] \<and>
   getSelectedTrademarksData (Some sample_report) [''1-0'', ''0-0''] \<noteq> [] \<and>
   totalTrademarksInGroups
     (applicantGroupsOf (getSelectedTrademarksData (Some sample_report) [''1-0'', ''0-0''])) = 2 \<and>
   length (filter (\<lambda>g. group_has g \<lparr>entry = TIGER, sim = TYGER, entryIndex = 1, simIndex = 0\<rparr>)
     (applicantGroupsOf (getSelectedTrademarksData (Some sample_report) [''1-0'', ''0-0'']))) = 1"
proof -
  have ids: "trademarkId 0 0 = ''0-0''" "trademarkId (Suc 0) 0 = ''1-0''"
    by (simp_all add: trademarkId_def show_nat.simps digit_char_def)
  have es: "entriesOf sample_report = [TIGER, TIGER]"
    by (simp add: entriesOf_def sample_report_def)
  have sims: "similarTrademarksOf TIGER = [TYGER]"
    by (simp add: similarTrademarksOf_def TIGER_def)
  have d: "distinct [''1-0'', ''0-0'']" by simp
  have v: "valid_keys sample_report [''1-0'', ''0-0'']"
    unfolding valid_keys_def es
  proof
    fix k assume "k \<in> set [''1-0'', ''0-0'']"
    then consider "k = ''1-0''" | "k = ''0-0''" by auto
    then show "\<exists>ei<length [TIGER, TIGER].
        \<exists>si<length (similarTrademarksOf ([TIGER, TIGER] ! ei)). k = trademarkId ei si"
    proof cases
      case 1
      have "(1::nat) < length [TIGER, TIGER] \<and>
          (0::nat) < length (similarTrademarksOf ([TIGER, TIGER] ! 1)) \<and> k = trademarkId 1 0"
        using 1 by (simp add: ids sims)
      then show ?thesis by blast
    next
      case 2
      have "(0::nat) < length [TIGER, TIGER] \<and>
          (0::nat) < length (similarTrademarksOf ([TIGER, TIGER] ! 0)) \<and> k = trademarkId 0 0"
        using 2 by (simp add: ids sims)
      then show ?thesis by blast
    qed
  qed
  note inst = C2_selection_partitioned_into_groups
    [of "getSelectedTrademarksData (Some sample_report) [''1-0'', ''0-0'']" sample_report
      "[''1-0'', ''0-0'']"]
  from inst d v have len: "totalTrademarksInGroups
     (applicantGroupsOf (getSelectedTrademarksData (Some sample_report) [''1-0'', ''0-0''])) =
     length [''1-0'', ''0-0'']"
    by blast
  from inst d v have keys:
    "set (map keyOf (getSelectedTrademarksData (Some sample_report) [''1-0'', ''0-0''])) =
     set [''1-0'', ''0-0'']"
    by blast
  have ne: "getSelectedTrademarksData (Some sample_report) [''1-0'', ''0-0''] \<noteq> []"
  proof
    assume "getSelectedTrademarksData (Some sample_report) [''1-0'', ''0-0''] = []"
    with keys have "{} = set [''1-0'', ''0-0'']" by (simp only: list.map list.set)
    then show False by simp
  qed
  from len have len2: "totalTrademarksInGroups
     (applicantGroupsOf (getSelectedTrademarksData (Some sample_report) [''1-0'', ''0-0''])) = 2"
    by simp
  from inst have one:
    "\<forall>t\<in>set (getSelectedTrademarksData (Some sample_report) [''1-0'', ''0-0'']).
      length (filter (\<lambda>g. group_has g t)
        (applicantGroupsOf (getSelectedTrademarksData (Some sample_report) [''1-0'', ''0-0'']))) = 1"
    by blast
  have "\<lparr>entry = TIGER, sim = TYGER, entryIndex = 1, simIndex = 0\<rparr> \<in>
      set (getSelectedTrademarksData (Some sample_report) [''1-0'', ''0-0''])"
    by (simp add: getSelectedTrademarksData_def es sims set_has_def ids)
  with one have one': "length (filter
      (\<lambda>g. group_has g \<lparr>entry = TIGER, sim = TYGER, entryIndex = 1, simIndex = 0\<rparr>)
      (applicantGroupsOf (getSelectedTrademarksData (Some sample_report) [''1-0'', ''0-0'']))) = 1"
    by (rule bspec)
  from d v ne len2 one' show ?thesis by (intro conjI)
qed

theorem C6_grouping_key_trimmed_or_unknown_witness:
  "applicantNameOf (TYGER\<lparr>applicant_name := Some ''  ''\<rparr>) = ''Unknown'' \<and>
   applicantNameOf (TYGER\<lparr>applicant_name := Some ''  Acme Corp ''\<rparr>) = ''Acme Corp'' \<and>
   applicantNameOf (TYGER\<lparr>applicant_name := None\<rparr>) = ''Unknown'' \<and>
   map applicantName
     (applicantGroupsOf
        [\<lparr>entry = TIGER, sim = TYGER, entryIndex = 0, simIndex = 0\<rparr>,
         \<lparr>entry = TIGER, sim = TYGER\<lparr>applicant_name := Some ''ACME CORP''\<rparr>, entryIndex = 0,
            simIndex = 1\<rparr>]) = [''Acme Corp'', ''ACME CORP'']"
proof -
  have white: "\<forall>c\<in>set ''  ''. isWhiteSpace c" by (simp add: isWhiteSpace_def)
  have nonwhite: "\<not> (\<forall>c\<in>set ''  Acme Corp ''. isWhiteSpace c)" by (simp add: isWhiteSpace_def)
  have tr: "trim ''  Acme Corp '' = ''Acme Corp''" by (simp add: trim_def isWhiteSpace_def)
  have a: "applicantNameOf (TYGER\<lparr>applicant_name := Some ''  ''\<rparr>) = ''Unknown''"
    using C6_grouping_key_trimmed_or_unknown [of "TYGER\<lparr>applicant_name := Some ''  ''\<rparr>" "[]"] white
    by simp
  have b: "applicantNameOf (TYGER\<lparr>applicant_name := Some ''  Acme Corp ''\<rparr>) = ''Acme Corp''"
    using C6_grouping_key_trimmed_or_unknown [of "TYGER\<lparr>applicant_name := Some ''  Acme Corp ''\<rparr>" "[]"]
      nonwhite tr
    by simp
  have c: "applicantNameOf (TYGER\<lparr>applicant_name := None\<rparr>) = ''Unknown''"
    using C6_grouping_key_trimmed_or_unknown [of "TYGER\<lparr>applicant_name := None\<rparr>" "[]"]
    by simp
  have names: "applicantNameOf TYGER = ''Acme Corp''"
    "applicantNameOf (TYGER\<lparr>applicant_name := Some ''ACME CORP''\<rparr>) = ''ACME CORP''"
    by (simp_all add: applicantNameOf_def trim_def isWhiteSpace_def TYGER_def)
  have d: "map applicantName
     (applicantGroupsOf
        [\<lparr>entry = TIGER, sim = TYGER, entryIndex = 0, simIndex = 0\<rparr>,
         \<lparr>entry = TIGER, sim = TYGER\<lparr>applicant_name := Some ''ACME CORP''\<rparr>, entryIndex = 0,
            simIndex = 1\<rparr>]) = [''Acme Corp'', ''ACME CORP'']"
    by (simp add: applicantGroupsOf_def grouped_of_def groupStep_def Let_def names)
  from a b c d show ?thesis by simp
qed

section \<open>Template renderer: properties\<close>

lemma parse_reference_date: "parseServerDate ''2025-01-06'' = Some 1736121600000" by code_simp
lemma deadline_IST: "formatOppositionDeadline IST ''2025-01-06'' = ''6 May 2025''" by code_simp
lemma civil_20094: "civil_from_days 20094 = (2025, 1, 6)" by code_simp
lemma civil_20093: "civil_from_days 20093 = (2025, 1, 5)" by code_simp
lemma MakeDay_May_6: "MakeDay 2025 4 6 = 20214" by code_simp
lemma MakeDay_May_5: "MakeDay 2025 4 5 = 20213" by code_simp
lemma civil_20214: "civil_from_days 20214 = (2025, 5, 6)" by code_simp

lemma day_of:
  fixes q r :: int
  assumes "0 \<le> r" "r < 86400000"
  shows "(q * 86400000 + r) div 86400000 = q" and "(q * 86400000 + r) mod 86400000 = r"
  using assms by (simp_all add: div_pos_pos_trivial mod_pos_pos_trivial)

lemma deadline_any_zone:
  assumes "plausible_zone tza"
  shows "formatOppositionDeadline tza ''2025-01-06'' = ''6 May 2025''"
proof -
  define a where "a = tza 1736121600000 True"
  define b where "b = tza (1746489600000 + a) False"
  from assms have a: "\<bar>a\<bar> \<le> 50400000" by (simp add: plausible_zone_def a_def)
  from assms have ab: "\<bar>a - b\<bar> \<le> 7200000" by (simp add: plausible_zone_def a_def b_def)
  have lt: "LocalTime tza 1736121600000 = 1736121600000 + a"
    by (simp add: LocalTime_def a_def)
  have "(1746489600000 + a - b + 19800000) div 86400000 = 20214"
    using day_of(1) [of "a - b + 19800000" 20214] ab by (simp add: algebra_simps)
  then have fmt: "toLocaleDateString_enIN (Some (1746489600000 + a - b)) = ''6 May 2025''"
    by (simp add: toLocaleDateString_enIN_def msPerDay_def civil_20214 monthNames_def show_nat.simps
        digit_char_def)
  have clip: "TimeClip (1746489600000 + a - b) = Some (1746489600000 + a - b)"
    using ab by (simp add: TimeClip_def)
  have "Date_getMonth tza (Some 1736121600000) = Some 0 \<and>
      Date_setMonth tza (Some 1736121600000) (Some 4) = Some (1746489600000 + a - b)"
  proof (cases "0 \<le> a")
    case True
    with a have d: "(1736121600000 + a) div 86400000 = 20094"
      and m: "(1736121600000 + a) mod 86400000 = a"
      using day_of [of a 20094] by simp_all
    have "Date_getMonth tza (Some 1736121600000) = Some 0"
      by (simp add: Date_getMonth_def lt msPerDay_def d civil_20094)
    moreover have "Date_setMonth tza (Some 1736121600000) (Some 4) =
        Some (1746489600000 + a - b)"
      using clip
      by (simp add: Date_setMonth_def lt msPerDay_def d m civil_20094 MakeDay_May_6 Let_def UTC_of_local_def b_def)
    ultimately show ?thesis ..
  next
    case False
    with a have d: "(1736121600000 + a) div 86400000 = 20093"
      and m: "(1736121600000 + a) mod 86400000 = 86400000 + a"
      using day_of [of "86400000 + a" 20093] by simp_all
    have "Date_getMonth tza (Some 1736121600000) = Some 0"
      by (simp add: Date_getMonth_def lt msPerDay_def d civil_20093)
    moreover have "Date_setMonth tza (Some 1736121600000) (Some 4) =
        Some (1746489600000 + a - b)"
      using clip
      by (simp add: Date_setMonth_def lt msPerDay_def d m civil_20093 MakeDay_May_5 Let_def UTC_of_local_def b_def)
    ultimately show ?thesis ..
  qed
  then show ?thesis
    by (simp add: formatOppositionDeadline_def parse_reference_date fmt Let_def)
qed

lemma scenario_templates_any_zone:
  assumes "plausible_zone tza"
  shows "scenario_templates tza = scenario_templates IST"
proof -
  have IST: "plausible_zone IST" by (simp add: plausible_zone_def IST_def)
  have "generateEmailTemplate tza a ens ''2025-01-06'' =
      generateEmailTemplate IST a ens ''2025-01-06''" for a ens
    by (simp add: generateEmailTemplate_def deadline_any_zone [OF assms]
        deadline_any_zone [OF IST])
  then show ?thesis
    by (simp add: scenario_templates_def emailTemplates_def scenario_report_def)
qed

lemma scenario_templates_IST: "scenario_templates IST = [scenario_text]"
  unfolding scenario_text_def by code_simp

lemma scenario_lines:
  "lines_of scenario_text =
    [''Dear Sir/Ma'' @ [CHR 0x27] @ ''am,'', [],
     ''We wish to draw your immediate attention to an application advertised in Trademark Journal, details of which are appearing herein below:'',
     [],
     ''Trademark: TIGER'',
     ''Class: 25'' @ tab @ tab,
     ''Source PDF Journal: Journal 2237 Class25'',
     ''Trademark Journal Date: 2237 6 January 2025'' @ tab,
     ''Page No: N/A'', [],
     ''The aforesaid advertised trademark conflict with your following Registered Trademark.'',
     [],
     ''Trademark: TYGER'',
     ''Class: 25'', [],
     ''We are of the opinion that you should take necessary action to prevent the registration of the said trade mark, for which you need to file a Notice of Opposition on or before 6 May 2025.'',
     [],
     ''If you wish to file a Notice of Opposition, kindly let us have your necessary instructions in this regard.'',
     [],
     ''Should you need further assistance in this regard, please feel free to contact us.'',
     [],
     ''Kindly, acknowledge safe receipt of this email.'', [], [], [],
     ''Thanks and Regards,'']"
  by code_simp

lemma deadline_line:
  "str_includes
     ''We are of the opinion that you should take necessary action to prevent the registration of the said trade mark, for which you need to file a Notice of Opposition on or before 6 May 2025.''
     ''Notice of Opposition on or before'' \<and>
   str_includes
     ''We are of the opinion that you should take necessary action to prevent the registration of the said trade mark, for which you need to file a Notice of Opposition on or before 6 May 2025.''
     ''6 May 2025''"
  by code_simp

lemma scenario_contents:
  "str_includes scenario_text ''Trademark: TIGER''"
  "str_includes scenario_text ''Class: 25''"
  "str_includes scenario_text ''2237''"
  "\<not> str_includes scenario_text ''May 6, 2025''"
  "str_includes scenario_text ''on or before 6 May 2025.''"
  by code_simp+

lemma scenario_line_contents:
  "''Trademark: TYGER'' \<in> set (lines_of scenario_text)"
  "''Class: 25'' \<in> set (lines_of scenario_text)"
  "\<exists>l\<in>set (lines_of scenario_text).
     str_includes l ''Notice of Opposition on or before'' \<and> str_includes l ''6 May 2025''"
proof -
  show "''Trademark: TYGER'' \<in> set (lines_of scenario_text)"
    unfolding scenario_lines by simp
  show "''Class: 25'' \<in> set (lines_of scenario_text)"
    unfolding scenario_lines by simp
  have "''We are of the opinion that you should take necessary action to prevent the registration of the said trade mark, for which you need to file a Notice of Opposition on or before 6 May 2025.''
      \<in> set (lines_of scenario_text)"
    unfolding scenario_lines by simp
  with deadline_line show "\<exists>l\<in>set (lines_of scenario_text).
     str_includes l ''Notice of Opposition on or before'' \<and> str_includes l ''6 May 2025''"
    by blast
qed

text \<open>
  C3, as stated: the template of the scenario has a deadline line containing
  \<open>May 6, 2025\<close>. It has not: the date is formatted for the locale \<open>en-IN\<close>, day first,
  and the line reads \<open>on or before 6 May 2025.\<close>
\<close>

theorem C3_deadline_format_counterexample:
  "length (scenario_templates IST) = 1 \<and>
   \<not> str_includes (scenario_templates IST ! 0) ''May 6, 2025'' \<and>
   str_includes (scenario_templates IST ! 0) ''on or before 6 May 2025.''"
  by (simp add: scenario_templates_IST scenario_contents)

text \<open>
  C3, amended: with the match \<open>TYGER\<close> of the entry \<open>TIGER\<close> selected and the reference
  Monday \<open>2025-01-06\<close>, one template is generated. It contains \<open>Trademark: TIGER\<close>,
  \<open>Class: 25\<close> and \<open>2237\<close>, it has the lines \<open>Trademark: TYGER\<close> and \<open>Class: 25\<close>
  (the prefix of the match's class stripped), and its deadline line contains
  \<open>6 May 2025\<close>, four calendar months after 6 January, whatever the host's time zone.
\<close>

theorem C3_scenario_template:
  "plausible_zone tza \<Longrightarrow>
   length (scenario_templates tza) = 1 \<and>
   str_includes (scenario_templates tza ! 0) ''Trademark: TIGER'' \<and>
   str_includes (scenario_templates tza ! 0) ''Class: 25'' \<and>
   str_includes (scenario_templates tza ! 0) ''2237'' \<and>
   ''Trademark: TYGER'' \<in> set (lines_of (scenario_templates tza ! 0)) \<and>
   ''Class: 25'' \<in> set (lines_of (scenario_templates tza ! 0)) \<and>
   (\<exists>l\<in>set (lines_of (scenario_templates tza ! 0)).
      str_includes l ''Notice of Opposition on or before'' \<and> str_includes l ''6 May 2025'')"
  using scenario_contents scenario_line_contents
  by (simp add: scenario_templates_any_zone scenario_templates_IST)

theorem C3_scenario_template_witness:
  "plausible_zone IST \<and>
   length (scenario_templates IST) = 1 \<and>
   ''Trademark: TYGER'' \<in> set (lines_of (scenario_templates IST ! 0)) \<and>
   (\<exists>l\<in>set (lines_of (scenario_templates IST ! 0)).
      str_includes l ''Notice of Opposition on or before'' \<and> str_includes l ''6 May 2025'')"
proof -
  have h: "plausible_zone IST" by (simp add: plausible_zone_def IST_def)
  from h C3_scenario_template [OF h] show ?thesis by blast
qed

section \<open>Session storage: properties\<close>

text \<open>
  C9, as stated: the template page clears the two keys when it has parsed them. It does
  not: after a successful load both keys still hold what the report page wrote. The page
  removes them in the \<open>catch\<close> branch only.
\<close>

theorem C9_cleared_on_success_counterexample:
  "snd (loadFromSessionStorage sample_parseSelection sample_parseReport False sample_store
          initialTemplatesPage) =
     initialTemplatesPage\<lparr>page_selectedTrademarks := sample_selection,
       page_reportData := Some scenario_report\<rparr> \<and>
   fst (loadFromSessionStorage sample_parseSelection sample_parseReport False sample_store
          initialTemplatesPage) ''selectedTrademarks'' = Some ''[selection]'' \<and>
   fst (loadFromSessionStorage sample_parseSelection sample_parseReport False sample_store
          initialTemplatesPage) ''reportData'' = Some ''{report}''"
  by (simp add: loadFromSessionStorage_def sample_store_def sample_parseSelection_def
      sample_parseReport_def noItem_def sample_selection_def comp_def)

text \<open>
  A stored report \<open>null\<close> parses: the selection is loaded with no report, no error is
  set, and the grouping effect, which needs a report, leaves the page loading.
\<close>

lemma stored_null_report_keeps_loading:
  "loadFromSessionStorage sample_parseSelection sample_parseReport False
     (sample_store(''reportData'' \<mapsto> ''null'')) initialTemplatesPage =
     (sample_store(''reportData'' \<mapsto> ''null''),
      \<lparr>page_selectedTrademarks = sample_selection, page_reportData = None,
         page_error = None, page_loading = True\<rparr>) \<and>
   groupingEffect sample_selection None = None"
  by (simp add: loadFromSessionStorage_def sample_store_def sample_parseSelection_def
      sample_parseReport_def noItem_def sample_selection_def comp_def initialTemplatesPage_def
      groupingEffect_def)

text \<open>
  C9, amended. The template page never removes the two keys after a load that does not
  throw: it leaves the storage as it is when it loads a non-empty selection, when the
  stored selection parses to an empty array or to a value that is no array, when a key is
  absent or empty, and when the visitor is not authenticated. It removes both keys
  exactly when loading throws, that is when one of the two texts does not parse or the
  parsed array holds a \<open>null\<close>; it then sets an error without failing, and a further
  load finds the content absent, as it does content that was never stored. A generate
  action that collects at least one selected pair writes both keys anew, whatever they
  held, and touches no other key; one that collects none shows the alert and leaves the
  storage alone.
\<close>

theorem C9_storage_handoff:
  "loadFromSessionStorage parseSelection parseReport True store page = (store, page) \<and>
   (noItem (store ''selectedTrademarks'') \<or> noItem (store ''reportData'') \<longrightarrow>
      loadFromSessionStorage parseSelection parseReport False store page =
        (store,
         page\<lparr>page_error := Some ''No selected trademarks found. Please go back and select trademarks.'',
              page_loading := False\<rparr>)) \<and>
   (store ''selectedTrademarks'' = Some s1 \<and> s1 \<noteq> [] \<and> store ''reportData'' = Some s2 \<and> s2 \<noteq> [] \<longrightarrow>
      (parseSelection s1 = None \<or> parseReport s2 = None \<or>
       (\<exists>ns. parseSelection s1 = Some (AnArray ns) \<and> ns \<noteq> [] \<and> None \<in> set ns) \<longrightarrow>
         loadFromSessionStorage parseSelection parseReport False store page =
           (store(''selectedTrademarks'' := None, ''reportData'' := None),
            page\<lparr>page_error := Some ''Failed to load selected trademarks data. Please go back and try again.'',
                 page_loading := False\<rparr>)) \<and>
      (parseReport s2 \<noteq> None \<and>
       (parseSelection s1 = Some NotAnArray \<or> parseSelection s1 = Some (AnArray [])) \<longrightarrow>
         loadFromSessionStorage parseSelection parseReport False store page =
           (store,
            page\<lparr>page_error := Some ''No valid selected trademarks found. Please go back and select trademarks.'',
                 page_loading := False\<rparr>)) \<and>
      (parseSelection s1 = Some (AnArray (map Some ts)) \<and> ts \<noteq> [] \<and> parseReport s2 = Some r \<longrightarrow>
         loadFromSessionStorage parseSelection parseReport False store page =
           (store, page\<lparr>page_selectedTrademarks := ts, page_reportData := r\<rparr>))) \<and>
   loadFromSessionStorage parseSelection parseReport False
       (store(''selectedTrademarks'' := None, ''reportData'' := None)) page =
     (store(''selectedTrademarks'' := None, ''reportData'' := None),
      page\<lparr>page_error := Some ''No selected trademarks found. Please go back and select trademarks.'',
           page_loading := False\<rparr>) \<and>
   (getSelectedTrademarksData rd selected \<noteq> [] \<longrightarrow>
      handleGenerateTemplates stringifySelection stringifyReport reportId rd selected store =
        (store(''selectedTrademarks'' \<mapsto> stringifySelection (getSelectedTrademarksData rd selected),
           ''reportData'' \<mapsto> stringifyReport rd),
         Navigated (''/app/report/'' @ reportId @ ''/email-templates''))) \<and>
   (getSelectedTrademarksData rd selected = [] \<longrightarrow>
      handleGenerateTemplates stringifySelection stringifyReport reportId rd selected store =
        (store, AlertShown ''Please select at least one trademark to generate email templates.''))"
proof (intro conjI impI)
  show "loadFromSessionStorage parseSelection parseReport True store page = (store, page)"
    by (simp add: loadFromSessionStorage_def)
next
  assume "noItem (store ''selectedTrademarks'') \<or> noItem (store ''reportData'')"
  then show "loadFromSessionStorage parseSelection parseReport False store page =
      (store,
       page\<lparr>page_error := Some ''No selected trademarks found. Please go back and select trademarks.'',
            page_loading := False\<rparr>)"
    by (auto simp: loadFromSessionStorage_def)
next
  assume a: "store ''selectedTrademarks'' = Some s1 \<and> s1 \<noteq> [] \<and>
    store ''reportData'' = Some s2 \<and> s2 \<noteq> []"
  assume b: "parseSelection s1 = None \<or> parseReport s2 = None \<or>
    (\<exists>ns. parseSelection s1 = Some (AnArray ns) \<and> ns \<noteq> [] \<and> None \<in> set ns)"
  from a b have "loadFromSessionStorage parseSelection parseReport False store page = loadFailed store page"
    by (auto simp: loadFromSessionStorage_def noItem_def
        split: option.splits parsed_selection.splits)
  then show "loadFromSessionStorage parseSelection parseReport False store page =
      (store(''selectedTrademarks'' := None, ''reportData'' := None),
       page\<lparr>page_error := Some ''Failed to load selected trademarks data. Please go back and try again.'',
            page_loading := False\<rparr>)"
    by (simp add: loadFailed_def)
next
  assume a: "store ''selectedTrademarks'' = Some s1 \<and> s1 \<noteq> [] \<and>
    store ''reportData'' = Some s2 \<and> s2 \<noteq> []"
  assume b: "parseReport s2 \<noteq> None \<and>
    (parseSelection s1 = Some NotAnArray \<or> parseSelection s1 = Some (AnArray []))"
  from a b show "loadFromSessionStorage parseSelection parseReport False store page =
      (store,
       page\<lparr>page_error := Some ''No valid selected trademarks found. Please go back and select trademarks.'',
            page_loading := False\<rparr>)"
    by (auto simp: loadFromSessionStorage_def noItem_def)
next
  assume a: "store ''selectedTrademarks'' = Some s1 \<and> s1 \<noteq> [] \<and>
    store ''reportData'' = Some s2 \<and> s2 \<noteq> []"
  assume b: "parseSelection s1 = Some (AnArray (map Some ts)) \<and> ts \<noteq> [] \<and>
    parseReport s2 = Some r"
  have "map the (map Some ts) = ts"
    by (simp add: comp_def)
  with a b show "loadFromSessionStorage parseSelection parseReport False store page =
      (store, page\<lparr>page_selectedTrademarks := ts, page_reportData := r\<rparr>)"
    by (auto simp: loadFromSessionStorage_def noItem_def)
next
  show "loadFromSessionStorage parseSelection parseReport False
      (store(''selectedTrademarks'' := None, ''reportData'' := None)) page =
      (store(''selectedTrademarks'' := None, ''reportData'' := None),
       page\<lparr>page_error := Some ''No selected trademarks found. Please go back and select trademarks.'',
            page_loading := False\<rparr>)"
    by (simp add: loadFromSessionStorage_def noItem_def)
next
  assume "getSelectedTrademarksData rd selected \<noteq> []"
  then show "handleGenerateTemplates stringifySelection stringifyReport reportId rd selected store =
      (store(''selectedTrademarks'' \<mapsto> stringifySelection (getSelectedTrademarksData rd selected),
         ''reportData'' \<mapsto> stringifyReport rd),
       Navigated (''/app/report/'' @ reportId @ ''/email-templates''))"
    by (auto simp: handleGenerateTemplates_def Let_def fun_eq_iff)
next
  assume "getSelectedTrademarksData rd selected = []"
  then show "handleGenerateTemplates stringifySelection stringifyReport reportId rd selected store =
      (store, AlertShown ''Please select at least one trademark to generate email templates.'')"
    by (simp add: handleGenerateTemplates_def)
qed

theorem C9_storage_handoff_witness:
  "fst (loadFromSessionStorage sample_parseSelection sample_parseReport False (sample_store(''reportData'' \<mapsto> ''{broken'')) initialTemplatesPage)
     ''selectedTrademarks'' = None \<and>
   fst (loadFromSessionStorage sample_parseSelection sample_parseReport False (sample_store(''selectedTrademarks'' \<mapsto> ''[null]'')) initialTemplatesPage)
     ''reportData'' = None \<and>
   fst (loadFromSessionStorage sample_parseSelection sample_parseReport False (sample_store(''selectedTrademarks'' \<mapsto> ''{}'')) initialTemplatesPage)
     ''selectedTrademarks'' = Some ''{}'' \<and>
   fst (loadFromSessionStorage sample_parseSelection sample_parseReport False (sample_store(''selectedTrademarks'' \<mapsto> ''[]'')) initialTemplatesPage)
     ''reportData'' = Some ''{report}'' \<and>
   loadFromSessionStorage sample_parseSelection sample_parseReport False sample_store initialTemplatesPage =
     (sample_store,
      initialTemplatesPage\<lparr>page_selectedTrademarks := sample_selection,
        page_reportData := Some scenario_report\<rparr>) \<and>
   loadFromSessionStorage sample_parseSelection sample_parseReport False Map.empty initialTemplatesPage =
     (Map.empty,
      initialTemplatesPage\<lparr>page_error :=
        Some ''No selected trademarks found. Please go back and select trademarks.'',
        page_loading := False\<rparr>) \<and>
   getSelectedTrademarksData (Some scenario_report) [''0-0''] \<noteq> [] \<and>
   fst (handleGenerateTemplates (\<lambda>x. ''[selection]'') (\<lambda>x. ''{report}'') ''r-1''
          (Some scenario_report) [''0-0''] (sample_store(''reportData'' \<mapsto> ''{broken'')))
     ''reportData'' = Some ''{report}'' \<and>
   getSelectedTrademarksData (Some scenario_report) [] = [] \<and>
   handleGenerateTemplates (\<lambda>x. ''[selection]'') (\<lambda>x. ''{report}'') ''r-1''
     (Some scenario_report) [] sample_store =
     (sample_store,
      AlertShown ''Please select at least one trademark to generate email templates.'')"
proof -
  let ?broken = "sample_store(''reportData'' \<mapsto> ''{broken'')"
  let ?nulls = "sample_store(''selectedTrademarks'' \<mapsto> ''[null]'')"
  let ?object = "sample_store(''selectedTrademarks'' \<mapsto> ''{}'')"
  let ?empty = "sample_store(''selectedTrademarks'' \<mapsto> ''[]'')"
  have id: "trademarkId 0 0 = ''0-0''"
    by (simp add: trademarkId_def show_nat.simps digit_char_def)
  have ne: "getSelectedTrademarksData (Some scenario_report) [''0-0''] \<noteq> []"
    by (simp add: getSelectedTrademarksData_def scenario_report_def entriesOf_def
        similarTrademarksOf_def TIGER_def set_has_def id)
  have pre_broken: "?broken ''selectedTrademarks'' = Some ''[selection]'' \<and> ''[selection]'' \<noteq> [] \<and>
      ?broken ''reportData'' = Some ''{broken'' \<and> ''{broken'' \<noteq> []"
    by (simp add: sample_store_def)
  have throws_broken: "sample_parseSelection ''[selection]'' = None \<or>
      sample_parseReport ''{broken'' = None \<or>
      (\<exists>ns. sample_parseSelection ''[selection]'' = Some (AnArray ns) \<and> ns \<noteq> [] \<and>
         None \<in> set ns)"
    by (simp add: sample_parseReport_def)
  from C9_storage_handoff [where store = ?broken and ?s1.0 = "''[selection]''"
      and ?s2.0 = "''{broken''" and parseSelection = sample_parseSelection
      and parseReport = sample_parseReport and page = initialTemplatesPage,
      THEN conjunct2, THEN conjunct2, THEN conjunct1, THEN mp, OF pre_broken,
      THEN conjunct1, THEN mp, OF throws_broken]
  have w1: "fst (loadFromSessionStorage sample_parseSelection sample_parseReport False ?broken initialTemplatesPage) ''selectedTrademarks'' = None"
    by simp
  have pre_nulls: "?nulls ''selectedTrademarks'' = Some ''[null]'' \<and> ''[null]'' \<noteq> [] \<and>
      ?nulls ''reportData'' = Some ''{report}'' \<and> ''{report}'' \<noteq> []"
    by (simp add: sample_store_def)
  have throws_nulls: "sample_parseSelection ''[null]'' = None \<or>
      sample_parseReport ''{report}'' = None \<or>
      (\<exists>ns. sample_parseSelection ''[null]'' = Some (AnArray ns) \<and> ns \<noteq> [] \<and>
         None \<in> set ns)"
    by (simp add: sample_parseSelection_def)
  from C9_storage_handoff [where store = ?nulls and ?s1.0 = "''[null]''"
      and ?s2.0 = "''{report}''" and parseSelection = sample_parseSelection
      and parseReport = sample_parseReport and page = initialTemplatesPage,
      THEN conjunct2, THEN conjunct2, THEN conjunct1, THEN mp, OF pre_nulls,
      THEN conjunct1, THEN mp, OF throws_nulls]
  have w2: "fst (loadFromSessionStorage sample_parseSelection sample_parseReport False ?nulls initialTemplatesPage) ''reportData'' = None"
    by simp
  have pre_object: "?object ''selectedTrademarks'' = Some ''{}'' \<and> ''{}'' \<noteq> [] \<and>
      ?object ''reportData'' = Some ''{report}'' \<and> ''{report}'' \<noteq> []"
    by (simp add: sample_store_def)
  have invalid_object: "sample_parseReport ''{report}'' \<noteq> None \<and>
      (sample_parseSelection ''{}'' = Some NotAnArray \<or>
       sample_parseSelection ''{}'' = Some (AnArray []))"
    by (simp add: sample_parseSelection_def sample_parseReport_def)
  from C9_storage_handoff [where store = ?object and ?s1.0 = "''{}''"
      and ?s2.0 = "''{report}''" and parseSelection = sample_parseSelection
      and parseReport = sample_parseReport and page = initialTemplatesPage,
      THEN conjunct2, THEN conjunct2, THEN conjunct1, THEN mp, OF pre_object,
      THEN conjunct2, THEN conjunct1, THEN mp, OF invalid_object]
  have w3: "fst (loadFromSessionStorage sample_parseSelection sample_parseReport False ?object initialTemplatesPage) ''selectedTrademarks'' = Some ''{}''"
    by simp
  have pre_empty: "?empty ''selectedTrademarks'' = Some ''[]'' \<and> ''[]'' \<noteq> [] \<and>
      ?empty ''reportData'' = Some ''{report}'' \<and> ''{report}'' \<noteq> []"
    by (simp add: sample_store_def)
  have invalid_empty: "sample_parseReport ''{report}'' \<noteq> None \<and>
      (sample_parseSelection ''[]'' = Some NotAnArray \<or>
       sample_parseSelection ''[]'' = Some (AnArray []))"
    by (simp add: sample_parseSelection_def sample_parseReport_def)
  from C9_storage_handoff [where store = ?empty and ?s1.0 = "''[]''"
      and ?s2.0 = "''{report}''" and parseSelection = sample_parseSelection
      and parseReport = sample_parseReport and page = initialTemplatesPage,
      THEN conjunct2, THEN conjunct2, THEN conjunct1, THEN mp, OF pre_empty,
      THEN conjunct2, THEN conjunct1, THEN mp, OF invalid_empty]
  have w4: "fst (loadFromSessionStorage sample_parseSelection sample_parseReport False ?empty initialTemplatesPage) ''reportData'' = Some ''{report}''"
    by (simp add: sample_store_def)
  have pre_good: "sample_store ''selectedTrademarks'' = Some ''[selection]'' \<and>
      ''[selection]'' \<noteq> [] \<and> sample_store ''reportData'' = Some ''{report}'' \<and>
      ''{report}'' \<noteq> []"
    by (simp add: sample_store_def)
  have parses: "sample_parseSelection ''[selection]'' = Some (AnArray (map Some sample_selection)) \<and>
      sample_selection \<noteq> [] \<and> sample_parseReport ''{report}'' = Some (Some scenario_report)"
    by (simp add: sample_parseSelection_def sample_parseReport_def sample_selection_def)
  from C9_storage_handoff [where store = sample_store and ?s1.0 = "''[selection]''"
      and ?s2.0 = "''{report}''" and parseSelection = sample_parseSelection
      and parseReport = sample_parseReport and page = initialTemplatesPage
      and ts = sample_selection and r = "Some scenario_report",
      THEN conjunct2, THEN conjunct2, THEN conjunct1, THEN mp, OF pre_good,
      THEN conjunct2, THEN conjunct2, THEN mp, OF parses]
  have w5: "loadFromSessionStorage sample_parseSelection sample_parseReport False sample_store initialTemplatesPage =
      (sample_store,
       initialTemplatesPage\<lparr>page_selectedTrademarks := sample_selection,
         page_reportData := Some scenario_report\<rparr>)" .
  from C9_storage_handoff [where store = ?broken and rd = "Some scenario_report"
      and selected = "[''0-0'']" and stringifySelection = "\<lambda>x. ''[selection]''"
      and stringifyReport = "\<lambda>x. ''{report}''" and reportId = "''r-1''",
      THEN conjunct2, THEN conjunct2, THEN conjunct2, THEN conjunct2, THEN conjunct1,
      THEN mp, OF ne]
  have w6: "fst (handleGenerateTemplates (\<lambda>x. ''[selection]'') (\<lambda>x. ''{report}'') ''r-1''
      (Some scenario_report) [''0-0''] ?broken) ''reportData'' = Some ''{report}''"
    by simp
  have absent: "noItem (Map.empty ''selectedTrademarks'') \<or> noItem (Map.empty ''reportData'')"
    by (simp add: noItem_def)
  from C9_storage_handoff [where store = Map.empty and parseSelection = sample_parseSelection
      and parseReport = sample_parseReport and page = initialTemplatesPage,
      THEN conjunct2, THEN conjunct1, THEN mp, OF absent]
  have w7: "loadFromSessionStorage sample_parseSelection sample_parseReport False Map.empty initialTemplatesPage =
      (Map.empty,
       initialTemplatesPage\<lparr>page_error :=
         Some ''No selected trademarks found. Please go back and select trademarks.'',
         page_loading := False\<rparr>)" .
  have none: "getSelectedTrademarksData (Some scenario_report) [] = []"
    by (simp add: getSelectedTrademarksData_def scenario_report_def entriesOf_def
        similarTrademarksOf_def TIGER_def set_has_def)
  from C9_storage_handoff [where store = sample_store and rd = "Some scenario_report"
      and selected = "[]" and stringifySelection = "\<lambda>x. ''[selection]''"
      and stringifyReport = "\<lambda>x. ''{report}''" and reportId = "''r-1''",
      THEN conjunct2, THEN conjunct2, THEN conjunct2, THEN conjunct2, THEN conjunct2,
      THEN mp, OF none]
  have w8: "handleGenerateTemplates (\<lambda>x. ''[selection]'') (\<lambda>x. ''{report}'') ''r-1''
      (Some scenario_report) [] sample_store =
      (sample_store,
       AlertShown ''Please select at least one trademark to generate email templates.'')" .
  from w1 w2 w3 w4 w5 w7 ne w6 none w8 show ?thesis by (intro conjI)
qed

end
